theory Spec2Isabelle
  imports Main "HOL-Library.Monad_Syntax" "HOL-Library.AList"
begin

section \<open>The page: DOM nodes as the annotation script reads them\<close>

text \<open>
  The annotation script (two variants in one file: the dual-role variant with primary and
  secondary selections, and the single-lock variant) is injected into a page and works on
  live DOM nodes. A node is modelled by its identity; the document gives, for every node,
  the properties the script reads: \<open>parentNode\<close> (\<open>None\<close> is JavaScript's \<open>null\<close>),
  \<open>childNodes\<close>, \<open>nodeType\<close>, \<open>tagName\<close>, \<open>id\<close> (\<open>None\<close> is \<open>undefined\<close>, which is
  what a node that is not an element, such as the document itself, answers),
  \<open>textContent\<close>, \<open>value\<close>, \<open>attributes\<close> and \<open>isContentEditable\<close>.
  The listeners and the two exported functions never change the tree of the page, only
  class tokens, so the document is a constant of theirs; the class tokens and the style
  element that setup inserts are kept in the window state below. \<open>attributes\<close> is the
  attribute list as the page gave it to the element; what \<open>element.attributes\<close> holds
  when the script reads it depends on the class tokens as well and is defined with them.
  Strings are byte strings; \<open>toLowerCase\<close> and \<open>trim\<close> are modelled on ASCII.
  The document has a head and a body. The pointer listeners are modelled for targets that
  are elements; the click listeners also say what happens for a target that is not one.
\<close>

type_synonym node = nat

record document =
  body :: node
  parentNode :: "node \<Rightarrow> node option"
  childNodes :: "node \<Rightarrow> node list"
  nodeType :: "node \<Rightarrow> nat"
  tagName :: "node \<Rightarrow> string"
  elem_id :: "node \<Rightarrow> string option"
  textContent :: "node \<Rightarrow> string option"
  elem_value :: "node \<Rightarrow> string option"
  attributes :: "node \<Rightarrow> (string \<times> string) list"
  isContentEditable :: "node \<Rightarrow> bool"

subsection \<open>String helpers of the host language\<close>

text \<open>Number to string, as \<open>'[' + (ix + 1) + ']'\<close> converts it: decimal digits.\<close>

fun string_of_nat :: "nat \<Rightarrow> string" where
  "string_of_nat n =
     (if n < 10 then [''0123456789'' ! n]
      else string_of_nat (n div 10) @ [''0123456789'' ! (n mod 10)])"

declare string_of_nat.simps [simp del]

definition lower_char :: "char \<Rightarrow> char" where
  "lower_char c =
     (case map_of (zip ''ABCDEFGHIJKLMNOPQRSTUVWXYZ'' ''abcdefghijklmnopqrstuvwxyz'') c of
        None \<Rightarrow> c
      | Some l \<Rightarrow> l)"

definition toLowerCase :: "string \<Rightarrow> string" where
  "toLowerCase s = map lower_char s"

definition is_space :: "char \<Rightarrow> bool" where
  "is_space c \<longleftrightarrow> c \<in> set [CHR '' '', CHR 0x09, CHR 0x0A, CHR 0x0B, CHR 0x0C, CHR 0x0D]"

definition trim :: "string \<Rightarrow> string" where
  "trim s = rev (dropWhile is_space (rev (dropWhile is_space s)))"

definition substring0 :: "nat \<Rightarrow> string \<Rightarrow> string" where
  "substring0 n s = take n s"

subsection \<open>Locator synthesis: \<open>getXPath\<close> and \<open>getAttributes\<close>\<close>

text \<open>
  What a call of \<open>getXPath\<close> produces: a string, \<open>null\<close>, or a \<open>TypeError\<close> (reading
  \<open>childNodes\<close> of a \<open>null\<close> parent). A call that never returns is \<open>None\<close> in the
  option type around it.
\<close>

datatype xpath_result = TypeError | Null | Locator string

text \<open>String conversion of a returned value in \<open>getXPath(parent) + '/' + ...\<close>.\<close>

fun locator_text :: "xpath_result \<Rightarrow> string" where
  "locator_text (Locator s) = s"
| "locator_text Null = ''null''"
| "locator_text TypeError = []"

text \<open>Interpolation of \<open>element.id\<close> in the template literal.\<close>

fun id_text :: "string option \<Rightarrow> string" where
  "id_text None = ''undefined''"
| "id_text (Some i) = i"

text \<open>
  The \<open>for\<close> loop over the siblings: it stops at the element itself, with the count
  \<open>ix\<close> of the element siblings of the same tag met before; it falls through (\<open>None\<close>)
  when the element is not among the siblings.
\<close>

fun getXPath_loop :: "document \<Rightarrow> node \<Rightarrow> node list \<Rightarrow> nat \<Rightarrow> nat option" where
  "getXPath_loop d element [] ix = None"
| "getXPath_loop d element (sibling # siblings) ix =
     (if sibling = element then Some ix
      else if nodeType d sibling = 1 \<and> tagName d sibling = tagName d element
      then getXPath_loop d element siblings (ix + 1)
      else getXPath_loop d element siblings ix)"

partial_function (option) getXPath :: "document \<Rightarrow> node \<Rightarrow> xpath_result option" where
  "getXPath d element =
     (if elem_id d element \<noteq> Some []
      then Some (Locator (''//*[@id=\"'' @ id_text (elem_id d element) @ ''\"]''))
      else if element = body d then Some (Locator ''/html/body'')
      else case parentNode d element of
        None \<Rightarrow> Some TypeError
      | Some parent \<Rightarrow>
          (case getXPath_loop d element (childNodes d parent) 0 of
             None \<Rightarrow> Some Null
           | Some ix \<Rightarrow>
               do {
                 r \<leftarrow> getXPath d parent;
                 Some (if r = TypeError then TypeError
                       else Locator (locator_text r @ ''/'' @ toLowerCase (tagName d element)
                                     @ ''['' @ string_of_nat (ix + 1) @ '']''))
               }))"

declare getXPath.simps [code]

text \<open>\<open>result[attr.name] = attr.value\<close> for every attribute, in order.\<close>

fun getAttributes_loop ::
  "(string \<times> string) list \<Rightarrow> (string \<times> string) list \<Rightarrow> (string \<times> string) list" where
  "getAttributes_loop [] result = result"
| "getAttributes_loop ((name, v) # attrs) result =
     getAttributes_loop attrs (AList.update name v result)"

text \<open>
  An element is attached when following \<open>parentNode\<close> reaches the body or a node whose
  \<open>id\<close> is not the empty string (an element with an identifier, or a node without that
  property such as the document), every node on the way being listed among the
  \<open>childNodes\<close> of its parent. Every element in the document is attached.
\<close>

inductive attached :: "document \<Rightarrow> node \<Rightarrow> bool" for d :: document where
  by_id: "elem_id d e \<noteq> Some [] \<Longrightarrow> attached d e"
| is_body: "e = body d \<Longrightarrow> attached d e"
| child: "parentNode d e = Some p \<Longrightarrow> e \<in> set (childNodes d p) \<Longrightarrow> attached d p \<Longrightarrow> attached d e"

text \<open>
  The position the specification gives an element among its siblings: one more than the
  number of element siblings of the same tag before it.
\<close>

definition position_among_same_tag :: "document \<Rightarrow> node \<Rightarrow> node list \<Rightarrow> nat" where
  "position_among_same_tag d element siblings =
     1 + length (filter (\<lambda>s. nodeType d s = 1 \<and> tagName d s = tagName d element)
                   (takeWhile (\<lambda>s. s \<noteq> element) siblings))"

text \<open>A small page used for concrete runs:
  document 0, html 1, head 2, body 3; under the body a \<open>ul id="list"\<close> 4 (with a text
  node 5 and three \<open>li\<close> 6, 7, 8), a \<open>div\<close> 9, an \<open>input\<close> 11 and a \<open>select\<close> 12;
  and a detached \<open>div\<close> 10.\<close>

definition page :: document where
  "page = \<lparr>
     body = 3,
     parentNode = (\<lambda>n. if n = 1 then Some 0 else if n \<in> {2, 3} then Some 1
                        else if n \<in> {4, 9, 11, 12} then Some 3
                        else if n \<in> {5, 6, 7, 8} then Some 4 else None),
     childNodes = (\<lambda>n. if n = 0 then [1] else if n = 1 then [2, 3]
                        else if n = 3 then [4, 9, 11, 12]
                        else if n = 4 then [5, 6, 7, 8] else []),
     nodeType = (\<lambda>n. if n = 0 then 9 else if n = 5 then 3 else 1),
     tagName = (\<lambda>n. if n = 1 then ''HTML'' else if n = 2 then ''HEAD''
                     else if n = 3 then ''BODY'' else if n = 4 then ''UL''
                     else if n \<in> {6, 7, 8} then ''LI'' else if n \<in> {9, 10} then ''DIV''
                     else if n = 11 then ''INPUT'' else if n = 12 then ''SELECT''
                     else []),
     elem_id = (\<lambda>n. if n = 0 \<or> n = 5 then None else if n = 4 then Some ''list'' else Some []),
     textContent = (\<lambda>n. if n = 0 then None else Some []),
     elem_value = (\<lambda>n. if n = 11 \<or> n = 12 then Some [] else None),
     attributes = (\<lambda>n. if n = 4 then [(''id'', ''list'')] else []),
     isContentEditable = (\<lambda>n. False) \<rparr>"

section \<open>The window: session state of the annotation script\<close>

text \<open>
  The script keeps its state in properties of \<open>window\<close>. The record has one field for
  each: the setup flag, the mode flag, the captured data of the primary (or only)
  selection, the lock flag, the references to the highlighted and the locked element, the
  two secondary arrays of the dual-role variant, and the six stored listener references.
  Beside them it holds what the script changes outside its own properties: the class
  tokens of every element (\<open>classList\<close>), the cursor of the body, the style elements with
  the identifier \<open>annotation-styles\<close>, the listeners the script has attached to the window
  (event type, function, capture flag), the requests sent with \<open>fetch\<close>, and a counter
  that gives every object the script creates (listener functions, style elements) an
  identity of its own. Console output is not modelled.
\<close>

record element_data =
  data_tagName :: string
  data_id :: "string option"
  data_className :: string
  data_textContent :: "string option"
  data_value :: "string option"
  data_xpath :: "string option"
  data_attributes :: "(string \<times> string) list"

record window =
  annotationSetupDone :: bool
  annotationMode :: bool
  selectedElement :: "element_data option"
  elementLocked :: bool
  currentHighlightedElement :: "node option"
  lockedElement :: "node option"
  secondaryActualElement :: "node list"
  secondaryElements :: "element_data list"
  annotationMouseoverListener :: "nat option"
  annotationMouseoutListener :: "nat option"
  annotationClickListener :: "nat option"
  annotationKeydownListener :: "nat option"
  annotationSelectListener :: "nat option"
  annotationChangeListener :: "nat option"
  classList :: "node \<Rightarrow> string list"
  cursor :: string
  annotationStyles :: "nat list"
  listeners :: "(string \<times> nat \<times> bool) list"
  requests :: "string list"
  nextObject :: nat

text \<open>
  An event as a listener sees it: its target, whether it is cancelable, its canceled flag
  (\<open>defaultPrevented\<close>) and its stop-immediate-propagation flag. \<open>preventDefault\<close>
  sets the canceled flag of a cancelable event and does nothing to any other event.
\<close>

record event =
  target :: node
  cancelable :: bool
  prevented :: bool
  stopped :: bool

definition preventDefault :: "event \<Rightarrow> event" where
  "preventDefault ev = (if cancelable ev then ev\<lparr>prevented := True\<rparr> else ev)"

definition stopImmediatePropagation :: "event \<Rightarrow> event" where
  "stopImmediatePropagation ev = ev\<lparr>stopped := True\<rparr>"

text \<open>An event after \<open>event.preventDefault(); event.stopImmediatePropagation();\<close>.\<close>

definition cancelled :: "event \<Rightarrow> event" where
  "cancelled ev = stopImmediatePropagation (preventDefault ev)"

text \<open>
  The browser's side of an event, as the DOM standard gives it: the listeners of one
  target and phase are invoked in the order in which they were attached, each with the
  state the page has then; once a listener has set the stop-immediate-propagation flag
  no further listener is invoked (neither there nor further along the event's path). The
  default action of the event runs afterwards unless the canceled flag is set.
\<close>

fun invoke_listeners :: "('s \<Rightarrow> event \<Rightarrow> 's \<times> event) list \<Rightarrow> 's \<Rightarrow> event \<Rightarrow> 's \<times> event" where
  "invoke_listeners [] s ev = (s, ev)"
| "invoke_listeners (l # ls) s ev =
     (case l s ev of
        (s', ev') \<Rightarrow> if stopped ev' then (s', ev') else invoke_listeners ls s' ev')"

definition default_action_runs :: "event \<Rightarrow> bool" where
  "default_action_runs ev \<longleftrightarrow> \<not> prevented ev"

text \<open>A listener of the script among the listeners of the page: it leaves the page's state.\<close>

definition as_listener :: "(event \<Rightarrow> event) \<Rightarrow> 's \<Rightarrow> event \<Rightarrow> 's \<times> event" where
  "as_listener f s ev = (s, f ev)"

text \<open>How a listener ends: it returns, or an exception leaves it where it was thrown.\<close>

datatype completion = Returned | Thrown

subsection \<open>Class tokens\<close>

definition highlight :: string where "highlight = ''annotation-highlight''"
definition primary :: string where "primary = ''annotation-primary''"
definition secondary :: string where "secondary = ''annotation-secondary''"
definition locked :: string where "locked = ''annotation-locked''"

definition classList_contains :: "window \<Rightarrow> node \<Rightarrow> string \<Rightarrow> bool" where
  "classList_contains w element c \<longleftrightarrow> c \<in> set (classList w element)"

definition classList_add :: "window \<Rightarrow> node \<Rightarrow> string \<Rightarrow> window" where
  "classList_add w element c =
     (if c \<in> set (classList w element) then w
      else w\<lparr>classList := (classList w)(element := classList w element @ [c])\<rparr>)"

definition classList_remove :: "window \<Rightarrow> node \<Rightarrow> string \<Rightarrow> window" where
  "classList_remove w element c =
     w\<lparr>classList := (classList w)(element := filter (\<lambda>t. t \<noteq> c) (classList w element))\<rparr>"

text \<open>\<open>element.className\<close>: the tokens separated by single spaces.\<close>

fun join_tokens :: "string list \<Rightarrow> string" where
  "join_tokens [] = []"
| "join_tokens [t] = t"
| "join_tokens (t # ts) = t @ '' '' @ join_tokens ts"

definition className :: "window \<Rightarrow> node \<Rightarrow> string" where
  "className w element = join_tokens (classList w element)"

text \<open>
  \<open>element.attributes\<close>: the attributes the page gave the element, with the class
  attribute holding the serialized class tokens. \<open>classList.add\<close> and
  \<open>classList.remove\<close> write that attribute: in its place when the element has one, as
  a new last attribute otherwise. An element without token is taken to have the class
  attribute only when the page gave it one; the script reads the attributes of an
  element only right after it has added a token to it.
\<close>

definition element_attributes :: "document \<Rightarrow> window \<Rightarrow> node \<Rightarrow> (string \<times> string) list" where
  "element_attributes d w element =
     (if classList w element = [] \<and> map_of (attributes d element) ''class'' = None
      then attributes d element
      else AList.update ''class'' (className w element) (attributes d element))"

definition getAttributes :: "document \<Rightarrow> window \<Rightarrow> node \<Rightarrow> (string \<times> string) list" where
  "getAttributes d w element = getAttributes_loop (element_attributes d w element) []"

subsection \<open>Capturing an element\<close>

text \<open>\<open>null\<close> and a string as the stored \<open>xpath\<close> property.\<close>

fun xpath_value :: "xpath_result \<Rightarrow> string option" where
  "xpath_value (Locator s) = Some s"
| "xpath_value Null = None"
| "xpath_value TypeError = None"

text \<open>
  The object literal both click handlers build, in the window as it is then (the role
  class has just been added, so \<open>className\<close> and \<open>attributes\<close> show it); \<open>xp\<close> is
  what \<open>getXPath(element)\<close> returned (the only property whose evaluation can fail).
\<close>

definition elementData :: "document \<Rightarrow> window \<Rightarrow> node \<Rightarrow> xpath_result \<Rightarrow> element_data" where
  "elementData d w element xp = \<lparr>
     data_tagName = tagName d element,
     data_id = elem_id d element,
     data_className = className w element,
     data_textContent = map_option (\<lambda>t. substring0 100 (trim t)) (textContent d element),
     data_value = elem_value d element,
     data_xpath = xpath_value xp,
     data_attributes = getAttributes d w element \<rparr>"

definition fetch :: "string \<Rightarrow> window \<Rightarrow> window" where
  "fetch url w = w\<lparr>requests := requests w @ [url]\<rparr>"

subsection \<open>Dual-role variant: hover, click, unlock, mode\<close>

definition annotationMouseoverListener_dual :: "window \<Rightarrow> node \<Rightarrow> window" where
  "annotationMouseoverListener_dual w element =
     (if \<not> annotationMode w then w
      else if classList_contains w element primary \<or> classList_contains w element secondary
      then w
      else
        let w1 = (case currentHighlightedElement w of
                    None \<Rightarrow> w
                  | Some h \<Rightarrow> if h \<noteq> element then classList_remove w h highlight else w);
            w2 = classList_add w1 element highlight
        in w2\<lparr>currentHighlightedElement := Some element\<rparr>)"

definition annotationMouseoutListener_dual :: "window \<Rightarrow> node \<Rightarrow> window" where
  "annotationMouseoutListener_dual w element =
     (if Some element = currentHighlightedElement w
      then (classList_remove w element highlight)\<lparr>currentHighlightedElement := None\<rparr>
      else w)"

text \<open>
  A target that is not an element (\<open>nodeType\<close> other than 1) has no \<open>classList\<close>: the
  first use of \<open>element.classList\<close> throws a \<open>TypeError\<close>. A throw of \<open>getXPath\<close>
  leaves the handler inside the object literal, after the classes have been written.
\<close>

definition annotationClickListener_dual ::
  "document \<Rightarrow> window \<Rightarrow> event \<Rightarrow> (completion \<times> window \<times> event) option" where
  "annotationClickListener_dual d w ev =
     (if \<not> annotationMode w then Some (Returned, w, ev)
      else
        let ev' = stopImmediatePropagation (preventDefault ev);
            element = target ev
        in
        if \<not> elementLocked w then
          let w1 = w\<lparr>elementLocked := True\<rparr>;
              w2 = classList_remove w1 element highlight;
              w3 = classList_add w2 element primary
          in
          if nodeType d element \<noteq> 1 then Some (Thrown, w1, ev')
          else do {
            xp \<leftarrow> getXPath d element;
            Some (if xp = TypeError then (Thrown, w3, ev')
                  else
                     (Returned,
                      fetch ''http://127.0.0.1:8080/api/notify-primary-selected''
                        (w3\<lparr>selectedElement := Some (elementData d w3 element xp),
                            lockedElement := Some element\<rparr>),
                      ev'))
          }
        else if nodeType d element \<noteq> 1 then Some (Thrown, w, ev')
        else if \<not> classList_contains w element secondary \<and> Some element \<noteq> lockedElement w
        then
          let w1 = classList_remove w element highlight;
              w2 = classList_add w1 element secondary
          in do {
            xp \<leftarrow> getXPath d element;
            Some (if xp = TypeError then (Thrown, w2, ev')
                  else
                     (Returned,
                      fetch ''http://127.0.0.1:8080/api/notify-secondary-selected''
                        (w2\<lparr>secondaryElements :=
                               secondaryElements w2 @ [elementData d w2 element xp],
                            secondaryActualElement := secondaryActualElement w2 @ [element]\<rparr>),
                      ev'))
          }
        else Some (Returned, w, ev'))"

text \<open>The \<open>forEach\<close> of \<open>unlockElement\<close> over the stored secondary elements.\<close>

fun remove_secondary :: "window \<Rightarrow> node list \<Rightarrow> window" where
  "remove_secondary w [] = w"
| "remove_secondary w (element # elements) =
     remove_secondary (classList_remove w element secondary) elements"

definition unlockElement_dual :: "window \<Rightarrow> bool \<times> window" where
  "unlockElement_dual w =
     (let w1 = (case lockedElement w of
                  None \<Rightarrow> w
                | Some l \<Rightarrow> (classList_remove w l primary)\<lparr>lockedElement := None\<rparr>);
          w2 = w1\<lparr>elementLocked := False, selectedElement := None\<rparr>;
          w3 = (if length (secondaryActualElement w2) > 0
                then (remove_secondary w2 (secondaryActualElement w2))
                       \<lparr>secondaryElements := [], secondaryActualElement := []\<rparr>
                else w2)
      in (True, w3))"

text \<open>
  A value passed to \<open>setAnnotationMode\<close>, and \<open>!!enabled\<close>. Numbers are given as
  integers and \<open>NaN\<close>; objects, functions and symbols are all \<open>JObject\<close>.
\<close>

datatype js_value =
  JUndefined | JNull | JBoolean bool | JNumber int | JNaN | JString string | JObject

fun truthy :: "js_value \<Rightarrow> bool" where
  "truthy JUndefined = False"
| "truthy JNull = False"
| "truthy (JBoolean b) = b"
| "truthy (JNumber n) = (n \<noteq> 0)"
| "truthy JNaN = False"
| "truthy (JString s) = (s \<noteq> [])"
| "truthy JObject = True"

definition setAnnotationMode_dual :: "window \<Rightarrow> js_value \<Rightarrow> window" where
  "setAnnotationMode_dual w enabled =
     (let w1 = w\<lparr>annotationMode := truthy enabled\<rparr>
      in if annotationMode w1 then w1\<lparr>cursor := ''crosshair''\<rparr>
         else
           let w2 = w1\<lparr>cursor := []\<rparr>;
               w3 = snd (unlockElement_dual w2)
           in w3\<lparr>secondaryElements := []\<rparr>)"

subsection \<open>Single-lock variant: hover, click, unlock, mode\<close>



definition annotationClickListener_single ::
  "document \<Rightarrow> window \<Rightarrow> event \<Rightarrow> (completion \<times> window \<times> event) option" where
  "annotationClickListener_single d w ev =
     (if \<not> annotationMode w then Some (Returned, w, ev)
      else
        let ev' = stopImmediatePropagation (preventDefault ev)
        in
        if elementLocked w then Some (Returned, w, ev')
        else
          let element = target ev;
              w1 = (case currentHighlightedElement w of
                      None \<Rightarrow> w
                    | Some h \<Rightarrow> classList_remove w h highlight);
              w2 = w1\<lparr>elementLocked := True\<rparr>;
              w3 = classList_remove w2 element highlight;
              w4 = classList_add w3 element locked
          in
          if nodeType d element \<noteq> 1 then Some (Thrown, w2, ev')
          else do {
            xp \<leftarrow> getXPath d element;
            Some (if xp = TypeError then (Thrown, w4, ev')
                  else
                     (Returned,
                      fetch ''http://127.0.0.1:8080/api/notify-element-selected''
                        (w4\<lparr>selectedElement := Some (elementData d w4 element xp),
                            lockedElement := Some element\<rparr>),
                      ev'))
          })"

definition unlockElement_single :: "window \<Rightarrow> bool \<times> window" where
  "unlockElement_single w =
     (let w1 = (case lockedElement w of
                  None \<Rightarrow> w
                | Some l \<Rightarrow> (classList_remove w l locked)\<lparr>lockedElement := None\<rparr>);
          w2 = w1\<lparr>elementLocked := False, selectedElement := None\<rparr>
      in (True, w2))"

definition setAnnotationMode_single :: "window \<Rightarrow> js_value \<Rightarrow> window" where
  "setAnnotationMode_single w enabled =
     (let w1 = w\<lparr>annotationMode := truthy enabled\<rparr>
      in if annotationMode w1 then w1\<lparr>cursor := ''crosshair''\<rparr>
         else
           let w2 = w1\<lparr>cursor := []\<rparr>
           in snd (unlockElement_single w2))"

subsection \<open>Input suppression (the same three listeners in both variants)\<close>

definition annotationKeydownListener_run :: "document \<Rightarrow> window \<Rightarrow> event \<Rightarrow> event" where
  "annotationKeydownListener_run d w ev =
     (if annotationMode w then
        if tagName d (target ev) = ''INPUT'' \<or> tagName d (target ev) = ''TEXTAREA''
           \<or> isContentEditable d (target ev)
        then stopImmediatePropagation (preventDefault ev)
        else ev
      else ev)"

definition annotationSelectListener_run :: "document \<Rightarrow> window \<Rightarrow> event \<Rightarrow> event" where
  "annotationSelectListener_run d w ev =
     (if annotationMode w then
        if tagName d (target ev) = ''SELECT''
        then stopImmediatePropagation (preventDefault ev)
        else ev
      else ev)"

definition annotationChangeListener_run :: "window \<Rightarrow> event \<Rightarrow> event" where
  "annotationChangeListener_run w ev =
     (if annotationMode w then stopImmediatePropagation (preventDefault ev) else ev)"

subsection \<open>Setup\<close>

text \<open>
  \<open>addEventListener\<close> ignores a listener that is already attached with the same type
  and capture flag; \<open>removeEventListener\<close> detaches the one that matches.
\<close>

definition addEventListener :: "string \<Rightarrow> nat \<Rightarrow> bool \<Rightarrow> window \<Rightarrow> window" where
  "addEventListener type f capture w =
     (if (type, f, capture) \<in> set (listeners w) then w
      else w\<lparr>listeners := listeners w @ [(type, f, capture)]\<rparr>)"

definition removeEventListener :: "string \<Rightarrow> nat \<Rightarrow> bool \<Rightarrow> window \<Rightarrow> window" where
  "removeEventListener type f capture w =
     w\<lparr>listeners := filter (\<lambda>l. l \<noteq> (type, f, capture)) (listeners w)\<rparr>"

text \<open>\<open>if (window._annotation...Listener) window.removeEventListener(...)\<close>.\<close>

definition remove_previous :: "nat option \<Rightarrow> string \<Rightarrow> bool \<Rightarrow> window \<Rightarrow> window" where
  "remove_previous stored type capture w =
     (case stored of None \<Rightarrow> w | Some f \<Rightarrow> removeEventListener type f capture w)"

text \<open>
  The style element: a new element is created, the first element found with the
  identifier \<open>annotation-styles\<close> is removed, the new one is appended to the head.
\<close>

definition install_style :: "window \<Rightarrow> window" where
  "install_style w =
     (let style = nextObject w;
          w1 = w\<lparr>nextObject := style + 1\<rparr>;
          w2 = (case annotationStyles w1 of
                  [] \<Rightarrow> w1
                | oldStyle # others \<Rightarrow> w1\<lparr>annotationStyles := others\<rparr>)
      in w2\<lparr>annotationStyles := annotationStyles w2 @ [style]\<rparr>)"

definition remove_previous_listeners :: "window \<Rightarrow> window" where
  "remove_previous_listeners w =
     (let w1 = remove_previous (annotationMouseoverListener w) ''mouseover'' False w;
          w2 = remove_previous (annotationMouseoutListener w1) ''mouseout'' False w1;
          w3 = remove_previous (annotationClickListener w2) ''click'' True w2;
          w4 = remove_previous (annotationKeydownListener w3) ''keydown'' True w3;
          w5 = remove_previous (annotationSelectListener w4) ''mousedown'' True w4
      in remove_previous (annotationChangeListener w5) ''change'' True w5)"

definition setup_dual :: "window \<Rightarrow> window" where
  "setup_dual w =
     (if annotationSetupDone w then w
      else
        let w1 = install_style w;
            w2 = w1\<lparr>annotationMode := False, selectedElement := None, elementLocked := False,
                    currentHighlightedElement := None, lockedElement := None,
                    secondaryActualElement := [], secondaryElements := []\<rparr>;
            w3 = remove_previous_listeners w2;
            f = nextObject w3;
            w4 = addEventListener ''mouseover'' f False
                   (w3\<lparr>annotationMouseoverListener := Some f\<rparr>);
            w5 = addEventListener ''mouseout'' (f + 1) False
                   (w4\<lparr>annotationMouseoutListener := Some (f + 1)\<rparr>);
            w6 = addEventListener ''click'' (f + 2) True
                   (w5\<lparr>annotationClickListener := Some (f + 2)\<rparr>);
            w7 = w6\<lparr>annotationKeydownListener := Some (f + 3),
                    annotationSelectListener := Some (f + 4),
                    annotationChangeListener := Some (f + 5)\<rparr>;
            w8 = addEventListener ''keydown'' (f + 3) True w7;
            w9 = addEventListener ''mousedown'' (f + 4) True w8;
            w10 = addEventListener ''change'' (f + 5) True w9
        in w10\<lparr>nextObject := f + 6, annotationSetupDone := True\<rparr>)"

text \<open>
  The single-lock variant creates the keydown, select and change listeners twice (the
  second assignment replaces the first before anything is attached).
\<close>

definition setup_single :: "window \<Rightarrow> window" where
  "setup_single w =
     (if annotationSetupDone w then w
      else
        let w1 = install_style w;
            w2 = w1\<lparr>annotationMode := False, selectedElement := None, elementLocked := False,
                    currentHighlightedElement := None, lockedElement := None\<rparr>;
            w3 = remove_previous_listeners w2;
            f = nextObject w3;
            w4 = w3\<lparr>annotationMouseoverListener := Some f,
                    annotationKeydownListener := Some (f + 1),
                    annotationSelectListener := Some (f + 2),
                    annotationChangeListener := Some (f + 3)\<rparr>;
            w5 = addEventListener ''mouseover'' f False w4;
            w6 = addEventListener ''mouseout'' (f + 4) False
                   (w5\<lparr>annotationMouseoutListener := Some (f + 4)\<rparr>);
            w7 = w6\<lparr>annotationClickListener := Some (f + 5),
                    annotationKeydownListener := Some (f + 6),
                    annotationSelectListener := Some (f + 7),
                    annotationChangeListener := Some (f + 8)\<rparr>;
            w8 = addEventListener ''click'' (f + 5) True w7;
            w9 = addEventListener ''keydown'' (f + 6) True w8;
            w10 = addEventListener ''mousedown'' (f + 7) True w9;
            w11 = addEventListener ''change'' (f + 8) True w10
        in w11\<lparr>nextObject := f + 9, annotationSetupDone := True\<rparr>)"

text \<open>The reference stored for an event type, and the capture flag the script uses.\<close>

definition stored_listener :: "window \<Rightarrow> string \<Rightarrow> (nat \<times> bool) option" where
  "stored_listener w type =
     (if type = ''mouseover'' then map_option (\<lambda>f. (f, False)) (annotationMouseoverListener w)
      else if type = ''mouseout'' then map_option (\<lambda>f. (f, False)) (annotationMouseoutListener w)
      else if type = ''click'' then map_option (\<lambda>f. (f, True)) (annotationClickListener w)
      else if type = ''keydown'' then map_option (\<lambda>f. (f, True)) (annotationKeydownListener w)
      else if type = ''mousedown'' then map_option (\<lambda>f. (f, True)) (annotationSelectListener w)
      else if type = ''change'' then map_option (\<lambda>f. (f, True)) (annotationChangeListener w)
      else None)"

definition event_kinds :: "string list" where
  "event_kinds = [''mouseover'', ''mouseout'', ''click'', ''keydown'', ''mousedown'', ''change'']"

text \<open>
  Every attached listener is the one stored for its type (and an object created before
  now): the state in which the window is before the first setup (nothing attached) and,
  as proved below, after every setup.
\<close>

definition listeners_stored :: "window \<Rightarrow> bool" where
  "listeners_stored w \<longleftrightarrow>
     distinct (listeners w) \<and>
     list_all (\<lambda>(type, f, capture). stored_listener w type = Some (f, capture) \<and> f < nextObject w)
       (listeners w)"

definition active :: "window \<Rightarrow> string \<Rightarrow> (string \<times> nat \<times> bool) list" where
  "active w type = filter (\<lambda>(t, f, capture). t = type) (listeners w)"

subsection \<open>Sequences of pointer events (dual-role variant)\<close>

datatype pointer_event = Mouseover node | Mouseout node

fun dispatch_pointer_dual :: "window \<Rightarrow> pointer_event \<Rightarrow> window" where
  "dispatch_pointer_dual w (Mouseover element) = annotationMouseoverListener_dual w element"
| "dispatch_pointer_dual w (Mouseout element) = annotationMouseoutListener_dual w element"

definition run_pointer_dual :: "window \<Rightarrow> pointer_event list \<Rightarrow> window" where
  "run_pointer_dual w evs = foldl dispatch_pointer_dual w evs"

text \<open>The elements entered, in order, that carry no locked-role class.\<close>

fun entered_unlocked :: "window \<Rightarrow> pointer_event list \<Rightarrow> node list" where
  "entered_unlocked w [] = []"
| "entered_unlocked w (Mouseover element # evs) =
     (if classList_contains w element primary \<or> classList_contains w element secondary
      then entered_unlocked w evs
      else element # entered_unlocked w evs)"
| "entered_unlocked w (Mouseout element # evs) = entered_unlocked w evs"

text \<open>
  The most recently entered such element: the last one of the sequence, or, when the
  sequence enters none, the element tracked before it.
\<close>

definition most_recently_entered :: "window \<Rightarrow> pointer_event list \<Rightarrow> node option" where
  "most_recently_entered w evs =
     (case entered_unlocked w evs of
        [] \<Rightarrow> currentHighlightedElement w
      | es \<Rightarrow> Some (last es))"

text \<open>Only the tracked element carries the highlight class.\<close>

definition highlight_tracked :: "window \<Rightarrow> bool" where
  "highlight_tracked w \<longleftrightarrow>
     (\<forall>element. highlight \<in> set (classList w element)
        \<longrightarrow> currentHighlightedElement w = Some element)"

text \<open>
  What a run of pointer events keeps, from the window \<open>w\<close> it starts in: the mode,
  the locked-role classes, that only the tracked element is highlighted, and that the
  tracked element, if any, is the most recently entered one.
\<close>

definition pointer_inv :: "window \<Rightarrow> pointer_event list \<Rightarrow> window \<Rightarrow> bool" where
  "pointer_inv w evs w' \<longleftrightarrow>
     annotationMode w' \<and>
     (\<forall>x. classList_contains w' x primary = classList_contains w x primary) \<and>
     (\<forall>x. classList_contains w' x secondary = classList_contains w x secondary) \<and>
     highlight_tracked w' \<and>
     (currentHighlightedElement w' = None
      \<or> currentHighlightedElement w' = most_recently_entered w evs)"

subsection \<open>Reachable states and index alignment (dual-role variant)\<close>

text \<open>
  A stored capture describes an element in a window when it is the capture the script
  would take of the element there: the fixed properties and the locator of the element,
  and the class name and attributes that the element has in that window.
\<close>

definition describes :: "document \<Rightarrow> window \<Rightarrow> element_data \<Rightarrow> node \<Rightarrow> bool" where
  "describes d w c element \<longleftrightarrow>
     (case getXPath d element of
        None \<Rightarrow> False
      | Some xp \<Rightarrow> xp \<noteq> TypeError \<and> c = elementData d w element xp)"

definition index_aligned :: "document \<Rightarrow> window \<Rightarrow> bool" where
  "index_aligned d w \<longleftrightarrow>
     length (secondaryElements w) = length (secondaryActualElement w) \<and>
     (\<forall>i < length (secondaryElements w).
        describes d w (secondaryElements w ! i) (secondaryActualElement w ! i))"

text \<open>
  What the dual-role script keeps true of its secondary selections, beside their
  alignment: every stored element carries the secondary class and not the highlight
  class, and while nothing is locked nothing is stored.
\<close>

definition secondary_inv :: "document \<Rightarrow> window \<Rightarrow> bool" where
  "secondary_inv d w \<longleftrightarrow>
     index_aligned d w \<and>
     list_all (\<lambda>e. classList_contains w e secondary \<and> \<not> classList_contains w e highlight)
       (secondaryActualElement w) \<and>
     (elementLocked w \<or> secondaryActualElement w = [])"

inductive reachable_dual :: "document \<Rightarrow> window \<Rightarrow> bool" for d :: document where
  after_setup: "\<not> annotationSetupDone w0 \<Longrightarrow> reachable_dual d (setup_dual w0)"
| after_mouseover: "reachable_dual d w \<Longrightarrow> reachable_dual d (annotationMouseoverListener_dual w e)"
| after_mouseout: "reachable_dual d w \<Longrightarrow> reachable_dual d (annotationMouseoutListener_dual w e)"
| after_click: "reachable_dual d w \<Longrightarrow> annotationClickListener_dual d w ev = Some (c, w', ev')
     \<Longrightarrow> reachable_dual d w'"
| after_unlock: "reachable_dual d w \<Longrightarrow> reachable_dual d (snd (unlockElement_dual w))"
| after_mode: "reachable_dual d w \<Longrightarrow> reachable_dual d (setAnnotationMode_dual w enabled)"

subsection \<open>A window before setup, for concrete runs\<close>

definition fresh_window :: window where
  "fresh_window = \<lparr>
     annotationSetupDone = False, annotationMode = False, selectedElement = None,
     elementLocked = False, currentHighlightedElement = None, lockedElement = None,
     secondaryActualElement = [], secondaryElements = [],
     annotationMouseoverListener = None, annotationMouseoutListener = None,
     annotationClickListener = None, annotationKeydownListener = None,
     annotationSelectListener = None, annotationChangeListener = None,
     classList = (\<lambda>n. []), cursor = [], annotationStyles = [], listeners = [],
     requests = [], nextObject = 0 \<rparr>"

text \<open>
  A cancelable event at an element (a click, a keydown, a mousedown), and a change
  event at an element as browsers fire it: not cancelable.
\<close>

definition event_at :: "node \<Rightarrow> event" where
  "event_at element =
     \<lparr>target = element, cancelable = True, prevented = False, stopped = False\<rparr>"

definition change_at :: "node \<Rightarrow> event" where
  "change_at element =
     \<lparr>target = element, cancelable = False, prevented = False, stopped = False\<rparr>"

text \<open>A window set up once whose setup flag has been cleared: the script is injected again.\<close>

definition reinjected_window :: window where
  "reinjected_window = (setup_dual fresh_window)\<lparr>annotationSetupDone := False\<rparr>"

text \<open>The sessions after setup with annotation mode switched on, and after a click.\<close>

definition session_dual :: window where
  "session_dual = setAnnotationMode_dual (setup_dual fresh_window) (JBoolean True)"

definition session_single :: window where
  "session_single = setAnnotationMode_single (setup_single fresh_window) (JBoolean True)"

definition after_dual_click :: "window \<Rightarrow> node \<Rightarrow> window" where
  "after_dual_click w element =
     (case annotationClickListener_dual page w (event_at element) of
        Some (c, w', ev') \<Rightarrow> w'
      | None \<Rightarrow> w)"

definition after_single_click :: "window \<Rightarrow> node \<Rightarrow> window" where
  "after_single_click w element =
     (case annotationClickListener_single page w (event_at element) of
        Some (c, w', ev') \<Rightarrow> w'
      | None \<Rightarrow> w)"

section \<open>Locator synthesis\<close>

lemma getXPath_loop_found:
  "element \<in> set siblings \<Longrightarrow>
   getXPath_loop d element siblings ix =
     Some (ix + length (filter (\<lambda>s. nodeType d s = 1 \<and> tagName d s = tagName d element)
                          (takeWhile (\<lambda>s. s \<noteq> element) siblings)))"
  by (induction siblings arbitrary: ix) auto

lemma getXPath_loop_missing:
  "getXPath_loop d element siblings ix = None \<longleftrightarrow> element \<notin> set siblings"
  by (induction siblings arbitrary: ix) auto

lemma getXPath_id:
  "elem_id d e \<noteq> Some [] \<Longrightarrow>
   getXPath d e = Some (Locator (''//*[@id=\"'' @ id_text (elem_id d e) @ ''\"]''))"
  by (subst getXPath.simps) simp

lemma getXPath_body:
  "elem_id d (body d) = Some [] \<Longrightarrow> getXPath d (body d) = Some (Locator ''/html/body'')"
  by (subst getXPath.simps) simp

lemma getXPath_child:
  assumes "elem_id d e = Some []" "e \<noteq> body d" "parentNode d e = Some p"
    "e \<in> set (childNodes d p)" "getXPath d p = Some r" "r \<noteq> TypeError"
  shows "getXPath d e =
           Some (Locator (locator_text r @ ''/'' @ toLowerCase (tagName d e) @ ''[''
                          @ string_of_nat (position_among_same_tag d e (childNodes d p)) @ '']''))"
  using assms
  by (subst getXPath.simps)
     (simp add: getXPath_loop_found position_among_same_tag_def)

lemma getXPath_detached:
  "elem_id d e = Some [] \<Longrightarrow> e \<noteq> body d \<Longrightarrow> parentNode d e = None
   \<Longrightarrow> getXPath d e = Some TypeError"
  by (subst getXPath.simps) simp


lemma attached_page_li: "attached page 8"
proof (rule attached.child)
  show "parentNode page 8 = Some 4" by (simp add: page_def)
  show "8 \<in> set (childNodes page 4)" by (simp add: page_def)
  show "attached page 4" by (rule attached.by_id) (simp add: page_def)
qed


text \<open>
  C6: \<open>getXPath\<close> returns \<open>//*[@id="foo"]\<close> for an element with the non-empty identifier
  \<open>foo\<close>, \<open>/html/body\<close> for the body without identifier, and otherwise, for an element
  listed among the child nodes of its parent, the locator of the parent followed by
  \<open>/tagname[i]\<close>, the tag in lower case and \<open>i\<close> the 1-based position of the element among
  the element siblings of the same tag.
\<close>

theorem getXPath_canonical:
  "(elem_id d e1 = Some foo \<and> foo \<noteq> [] \<longrightarrow>
      getXPath d e1 = Some (Locator (''//*[@id=\"'' @ foo @ ''\"]'')))
   \<and> (elem_id d (body d) = Some [] \<longrightarrow> getXPath d (body d) = Some (Locator ''/html/body''))
   \<and> (elem_id d e = Some [] \<and> e \<noteq> body d \<and> parentNode d e = Some p
        \<and> e \<in> set (childNodes d p) \<and> getXPath d p = Some r \<and> r \<noteq> TypeError \<longrightarrow>
      getXPath d e =
        Some (Locator (locator_text r @ ''/'' @ toLowerCase (tagName d e) @ ''[''
                       @ string_of_nat (position_among_same_tag d e (childNodes d p)) @ '']'')))"
proof (intro conjI impI)
  assume "elem_id d e1 = Some foo \<and> foo \<noteq> []"
  then show "getXPath d e1 = Some (Locator (''//*[@id=\"'' @ foo @ ''\"]''))"
    using getXPath_id [of d e1] by simp
next
  assume "elem_id d (body d) = Some []"
  then show "getXPath d (body d) = Some (Locator ''/html/body'')"
    by (rule getXPath_body)
next
  assume "elem_id d e = Some [] \<and> e \<noteq> body d \<and> parentNode d e = Some p
        \<and> e \<in> set (childNodes d p) \<and> getXPath d p = Some r \<and> r \<noteq> TypeError"
  then show "getXPath d e =
        Some (Locator (locator_text r @ ''/'' @ toLowerCase (tagName d e) @ ''[''
                       @ string_of_nat (position_among_same_tag d e (childNodes d p)) @ '']''))"
    by (simp add: getXPath_child)
qed

text \<open>
  The examples of the specification on the page above: the list with the identifier
  \<open>list\<close>, the body, and the third \<open>li\<close> of the list (after a text node and two \<open>li\<close>).
\<close>

theorem getXPath_canonical_witness:
  "getXPath page 4 = Some (Locator (''//*[@id=\"list\"]''))
   \<and> getXPath page (body page) = Some (Locator ''/html/body'')
   \<and> getXPath page 8 = Some (Locator ''//*[@id=\"list\"]/li[3]'')"
  using getXPath_canonical [of page 4 "''list''" 8 4 "Locator ''//*[@id=\"list\"]''"]
  by (simp add: page_def position_among_same_tag_def toLowerCase_def lower_char_def
      string_of_nat.simps)

section \<open>Class tokens, unlock and mode\<close>

lemma class_names_distinct [simp]:
  "highlight \<noteq> primary" "highlight \<noteq> secondary" "highlight \<noteq> locked"
  "primary \<noteq> highlight" "secondary \<noteq> highlight" "locked \<noteq> highlight"
  "primary \<noteq> secondary" "secondary \<noteq> primary"
  by (simp_all add: highlight_def primary_def secondary_def locked_def)

lemma classList_add_eq:
  "classList_add w e c =
     w\<lparr>classList := (classList w)(e := if c \<in> set (classList w e) then classList w e
                                         else classList w e @ [c])\<rparr>"
  by (simp add: classList_add_def)

lemma remove_secondary_eq:
  "remove_secondary w xs =
     w\<lparr>classList := (\<lambda>x. if x \<in> set xs then filter (\<lambda>t. t \<noteq> secondary) (classList w x)
                           else classList w x)\<rparr>"
proof (induction xs arbitrary: w)
  case Nil
  show ?case by simp
next
  case (Cons x xs)
  show ?case
    by (simp add: Cons.IH classList_remove_def fun_eq_iff)
qed

lemma unlockElement_dual_nothing:
  "lockedElement w = None \<Longrightarrow> \<not> elementLocked w \<Longrightarrow> selectedElement w = None
   \<Longrightarrow> secondaryActualElement w = [] \<Longrightarrow> unlockElement_dual w = (True, w)"
  by (simp add: unlockElement_dual_def)

lemma unlockElement_dual_after:
  "lockedElement (snd (unlockElement_dual w)) = None"
  "\<not> elementLocked (snd (unlockElement_dual w))"
  "selectedElement (snd (unlockElement_dual w)) = None"
  "secondaryActualElement (snd (unlockElement_dual w)) = []"
  by (simp_all add: unlockElement_dual_def Let_def remove_secondary_eq classList_remove_def
      split: option.splits)

lemma unlockElement_dual_true: "fst (unlockElement_dual w) = True"
  by (simp add: unlockElement_dual_def Let_def)

lemma unlockElement_dual_idem:
  "unlockElement_dual (snd (unlockElement_dual w)) = unlockElement_dual w"
proof -
  have "unlockElement_dual (snd (unlockElement_dual w)) = (True, snd (unlockElement_dual w))"
    by (rule unlockElement_dual_nothing) (rule unlockElement_dual_after)+
  then show ?thesis using unlockElement_dual_true [of w] by (simp add: prod_eq_iff)
qed

lemma unlockElement_dual_classes:
  "(\<forall>l. lockedElement w = Some l \<longrightarrow>
        \<not> classList_contains (snd (unlockElement_dual w)) l primary)
   \<and> (\<forall>e \<in> set (secondaryActualElement w).
        \<not> classList_contains (snd (unlockElement_dual w)) e secondary)"
  by (auto simp add: unlockElement_dual_def Let_def remove_secondary_eq classList_remove_def
      classList_contains_def split: option.splits)

lemma unlockElement_dual_collections:
  "length (secondaryElements w) = length (secondaryActualElement w)
   \<Longrightarrow> secondaryElements (snd (unlockElement_dual w)) = []"
  by (auto simp add: unlockElement_dual_def Let_def remove_secondary_eq classList_remove_def
      split: option.splits)

lemma unlockElement_single_nothing:
  "lockedElement w = None \<Longrightarrow> \<not> elementLocked w \<Longrightarrow> selectedElement w = None
   \<Longrightarrow> unlockElement_single w = (True, w)"
  by (simp add: unlockElement_single_def)

lemma unlockElement_single_after:
  "lockedElement (snd (unlockElement_single w)) = None"
  "\<not> elementLocked (snd (unlockElement_single w))"
  "selectedElement (snd (unlockElement_single w)) = None"
  by (simp_all add: unlockElement_single_def Let_def classList_remove_def split: option.splits)

lemma unlockElement_single_true: "fst (unlockElement_single w) = True"
  by (simp add: unlockElement_single_def Let_def)

lemma unlockElement_single_idem:
  "unlockElement_single (snd (unlockElement_single w)) = unlockElement_single w"
proof -
  have "unlockElement_single (snd (unlockElement_single w))
        = (True, snd (unlockElement_single w))"
    by (rule unlockElement_single_nothing) (rule unlockElement_single_after)+
  then show ?thesis using unlockElement_single_true [of w] by (simp add: prod_eq_iff)
qed

lemma unlockElement_single_classes:
  "lockedElement w = Some l \<Longrightarrow> \<not> classList_contains (snd (unlockElement_single w)) l locked"
  by (simp add: unlockElement_single_def Let_def classList_remove_def classList_contains_def)

lemma setAnnotationMode_dual_on:
  "truthy x \<Longrightarrow>
   setAnnotationMode_dual w x = w\<lparr>annotationMode := True, cursor := ''crosshair''\<rparr>"
  by (simp add: setAnnotationMode_dual_def Let_def)

lemma setAnnotationMode_single_on:
  "truthy x \<Longrightarrow>
   setAnnotationMode_single w x = w\<lparr>annotationMode := True, cursor := ''crosshair''\<rparr>"
  by (simp add: setAnnotationMode_single_def Let_def)

lemma setAnnotationMode_dual_off:
  assumes "\<not> truthy x"
  shows "annotationMode (setAnnotationMode_dual w x) = False"
    "cursor (setAnnotationMode_dual w x) = []"
    "elementLocked (setAnnotationMode_dual w x) = False"
    "lockedElement (setAnnotationMode_dual w x) = None"
    "selectedElement (setAnnotationMode_dual w x) = None"
    "secondaryElements (setAnnotationMode_dual w x) = []"
    "secondaryActualElement (setAnnotationMode_dual w x) = []"
  using assms
  by (simp_all add: setAnnotationMode_dual_def unlockElement_dual_def Let_def remove_secondary_eq
      classList_remove_def split: option.splits)

lemma setAnnotationMode_single_off:
  assumes "\<not> truthy x"
  shows "annotationMode (setAnnotationMode_single w x) = False"
    "cursor (setAnnotationMode_single w x) = []"
    "elementLocked (setAnnotationMode_single w x) = False"
    "lockedElement (setAnnotationMode_single w x) = None"
    "selectedElement (setAnnotationMode_single w x) = None"
  using assms
  by (simp_all add: setAnnotationMode_single_def unlockElement_single_def Let_def
      classList_remove_def split: option.splits)

section \<open>Setup\<close>

lemma remove_previous_eq:
  "remove_previous stored type capture w =
     w\<lparr>listeners := (case stored of None \<Rightarrow> listeners w
                       | Some f \<Rightarrow> filter (\<lambda>l. l \<noteq> (type, f, capture)) (listeners w))\<rparr>"
  by (simp add: remove_previous_def removeEventListener_def split: option.splits)

lemma install_style_eq:
  "install_style w =
     w\<lparr>nextObject := nextObject w + 1,
       annotationStyles := (case annotationStyles w of [] \<Rightarrow> [] | oldStyle # others \<Rightarrow> others)
                           @ [nextObject w]\<rparr>"
  by (simp add: install_style_def Let_def split: list.splits)

lemma addEventListener_fields:
  "annotationSetupDone (addEventListener t f c w) = annotationSetupDone w"
  "secondaryElements (addEventListener t f c w) = secondaryElements w"
  "secondaryActualElement (addEventListener t f c w) = secondaryActualElement w"
  "annotationMouseoverListener (addEventListener t f c w) = annotationMouseoverListener w"
  "annotationMouseoutListener (addEventListener t f c w) = annotationMouseoutListener w"
  "annotationClickListener (addEventListener t f c w) = annotationClickListener w"
  "annotationKeydownListener (addEventListener t f c w) = annotationKeydownListener w"
  "annotationSelectListener (addEventListener t f c w) = annotationSelectListener w"
  "annotationChangeListener (addEventListener t f c w) = annotationChangeListener w"
  "nextObject (addEventListener t f c w) = nextObject w"
  "annotationMode (addEventListener t f c w) = annotationMode w"
  "selectedElement (addEventListener t f c w) = selectedElement w"
  "elementLocked (addEventListener t f c w) = elementLocked w"
  "currentHighlightedElement (addEventListener t f c w) = currentHighlightedElement w"
  "lockedElement (addEventListener t f c w) = lockedElement w"
  "classList (addEventListener t f c w) = classList w"
  by (simp_all add: addEventListener_def)

lemma remove_previous_fields:
  "annotationMouseoverListener (remove_previous s t c w) = annotationMouseoverListener w"
  "annotationMouseoutListener (remove_previous s t c w) = annotationMouseoutListener w"
  "annotationClickListener (remove_previous s t c w) = annotationClickListener w"
  "annotationKeydownListener (remove_previous s t c w) = annotationKeydownListener w"
  "annotationSelectListener (remove_previous s t c w) = annotationSelectListener w"
  "annotationChangeListener (remove_previous s t c w) = annotationChangeListener w"
  by (simp_all add: remove_previous_eq)

lemma remove_previous_listeners_fields:
  "annotationSetupDone (remove_previous_listeners w) = annotationSetupDone w"
  "secondaryElements (remove_previous_listeners w) = secondaryElements w"
  "secondaryActualElement (remove_previous_listeners w) = secondaryActualElement w"
  "annotationMouseoverListener (remove_previous_listeners w) = annotationMouseoverListener w"
  "annotationMouseoutListener (remove_previous_listeners w) = annotationMouseoutListener w"
  "annotationClickListener (remove_previous_listeners w) = annotationClickListener w"
  "annotationKeydownListener (remove_previous_listeners w) = annotationKeydownListener w"
  "annotationSelectListener (remove_previous_listeners w) = annotationSelectListener w"
  "annotationChangeListener (remove_previous_listeners w) = annotationChangeListener w"
  "nextObject (remove_previous_listeners w) = nextObject w"
  "annotationMode (remove_previous_listeners w) = annotationMode w"
  "selectedElement (remove_previous_listeners w) = selectedElement w"
  "elementLocked (remove_previous_listeners w) = elementLocked w"
  "currentHighlightedElement (remove_previous_listeners w) = currentHighlightedElement w"
  "lockedElement (remove_previous_listeners w) = lockedElement w"
  "classList (remove_previous_listeners w) = classList w"
  by (simp_all add: remove_previous_listeners_def Let_def remove_previous_eq)

text \<open>Setup resets the session state and leaves the class tokens of the page alone.\<close>

lemma setup_dual_resets:
  assumes "\<not> annotationSetupDone w"
  shows "annotationMode (setup_dual w) = False"
    "selectedElement (setup_dual w) = None"
    "elementLocked (setup_dual w) = False"
    "currentHighlightedElement (setup_dual w) = None"
    "lockedElement (setup_dual w) = None"
    "secondaryActualElement (setup_dual w) = []"
    "secondaryElements (setup_dual w) = []"
    "classList (setup_dual w) = classList w"
  using assms
  by (simp_all add: setup_dual_def Let_def addEventListener_fields
      remove_previous_listeners_fields install_style_eq)

lemma setup_single_resets:
  assumes "\<not> annotationSetupDone w"
  shows "annotationMode (setup_single w) = False"
    "selectedElement (setup_single w) = None"
    "elementLocked (setup_single w) = False"
    "currentHighlightedElement (setup_single w) = None"
    "lockedElement (setup_single w) = None"
    "classList (setup_single w) = classList w"
  using assms
  by (simp_all add: setup_single_def Let_def addEventListener_fields
      remove_previous_listeners_fields install_style_eq)

lemma listeners_addEventListener:
  "listeners (addEventListener t f c w) =
     (if (t, f, c) \<in> set (listeners w) then listeners w else listeners w @ [(t, f, c)])"
  by (simp add: addEventListener_def)

lemma set_listeners_remove_previous:
  "set (listeners (remove_previous s t c w)) =
     set (listeners w) - (case s of None \<Rightarrow> {} | Some f \<Rightarrow> {(t, f, c)})"
  by (cases s) (auto simp add: remove_previous_eq)

lemma remove_previous_listeners_set:
  "set (listeners (remove_previous_listeners w)) =
     set (listeners w)
       - (case annotationMouseoverListener w of None \<Rightarrow> {} | Some f \<Rightarrow> {(''mouseover'', f, False)})
       - (case annotationMouseoutListener w of None \<Rightarrow> {} | Some f \<Rightarrow> {(''mouseout'', f, False)})
       - (case annotationClickListener w of None \<Rightarrow> {} | Some f \<Rightarrow> {(''click'', f, True)})
       - (case annotationKeydownListener w of None \<Rightarrow> {} | Some f \<Rightarrow> {(''keydown'', f, True)})
       - (case annotationSelectListener w of None \<Rightarrow> {} | Some f \<Rightarrow> {(''mousedown'', f, True)})
       - (case annotationChangeListener w of None \<Rightarrow> {} | Some f \<Rightarrow> {(''change'', f, True)})"
  by (simp only: remove_previous_listeners_def Let_def remove_previous_fields
      set_listeners_remove_previous)

text \<open>The listener stored for a type is detached by the removals of setup.\<close>

lemma remove_previous_listeners_member:
  assumes "stored_listener w t = Some (f, c)"
  shows "(t, f, c) \<notin> set (listeners (remove_previous_listeners w))"
proof -
  from assms consider
      "t = ''mouseover''" "annotationMouseoverListener w = Some f" "c = False"
    | "t = ''mouseout''" "annotationMouseoutListener w = Some f" "c = False"
    | "t = ''click''" "annotationClickListener w = Some f" "c = True"
    | "t = ''keydown''" "annotationKeydownListener w = Some f" "c = True"
    | "t = ''mousedown''" "annotationSelectListener w = Some f" "c = True"
    | "t = ''change''" "annotationChangeListener w = Some f" "c = True"
    by (auto simp add: stored_listener_def split: if_splits)
  then show ?thesis
    by cases (simp_all add: remove_previous_listeners_set)
qed

lemma remove_previous_listeners_empty:
  assumes "listeners_stored w"
  shows "listeners (remove_previous_listeners w) = []"
proof -
  have sub: "set (listeners (remove_previous_listeners w)) \<subseteq> set (listeners w)"
    by (auto simp add: remove_previous_listeners_set)
  have "set (listeners (remove_previous_listeners w)) = {}"
  proof (rule ccontr)
    assume "set (listeners (remove_previous_listeners w)) \<noteq> {}"
    then obtain t f c where l: "(t, f, c) \<in> set (listeners (remove_previous_listeners w))"
      by (metis ex_in_conv prod_cases3)
    with sub have "(t, f, c) \<in> set (listeners w)" by blast
    with assms have "stored_listener w t = Some (f, c)"
      by (auto simp add: listeners_stored_def list_all_iff)
    with l show False using remove_previous_listeners_member by blast
  qed
  then show ?thesis by simp
qed

lemma listeners_stored_mono:
  "listeners_stored w \<Longrightarrow> listeners w' = listeners w \<Longrightarrow>
   annotationMouseoverListener w' = annotationMouseoverListener w \<Longrightarrow>
   annotationMouseoutListener w' = annotationMouseoutListener w \<Longrightarrow>
   annotationClickListener w' = annotationClickListener w \<Longrightarrow>
   annotationKeydownListener w' = annotationKeydownListener w \<Longrightarrow>
   annotationSelectListener w' = annotationSelectListener w \<Longrightarrow>
   annotationChangeListener w' = annotationChangeListener w \<Longrightarrow>
   nextObject w \<le> nextObject w' \<Longrightarrow>
   listeners_stored w'"
  by (auto simp add: listeners_stored_def stored_listener_def list_all_iff cong: if_cong)

lemma setup_dual_done: "annotationSetupDone w \<Longrightarrow> setup_dual w = w"
  by (simp add: setup_dual_def)

lemma setup_single_done: "annotationSetupDone w \<Longrightarrow> setup_single w = w"
  by (simp add: setup_single_def)

lemma setup_dual_installs:
  assumes "\<not> annotationSetupDone w" "listeners_stored w"
  shows "listeners (setup_dual w) =
           [(''mouseover'', nextObject w + 1, False), (''mouseout'', nextObject w + 2, False),
            (''click'', nextObject w + 3, True), (''keydown'', nextObject w + 4, True),
            (''mousedown'', nextObject w + 5, True), (''change'', nextObject w + 6, True)]"
    and "annotationMouseoverListener (setup_dual w) = Some (nextObject w + 1)"
    and "annotationMouseoutListener (setup_dual w) = Some (nextObject w + 2)"
    and "annotationClickListener (setup_dual w) = Some (nextObject w + 3)"
    and "annotationKeydownListener (setup_dual w) = Some (nextObject w + 4)"
    and "annotationSelectListener (setup_dual w) = Some (nextObject w + 5)"
    and "annotationChangeListener (setup_dual w) = Some (nextObject w + 6)"
    and "annotationSetupDone (setup_dual w)"
    and "nextObject (setup_dual w) = nextObject w + 7"
proof -
  define w2 where "w2 = (install_style w)\<lparr>annotationMode := False, selectedElement := None,
      elementLocked := False, currentHighlightedElement := None, lockedElement := None,
      secondaryActualElement := [], secondaryElements := []\<rparr>"
  from assms(2) have "listeners_stored w2"
    by (rule listeners_stored_mono) (simp_all add: w2_def install_style_eq)
  then have empty: "listeners (remove_previous_listeners w2) = []"
    by (simp add: remove_previous_listeners_empty)
  have next_obj: "nextObject (remove_previous_listeners w2) = nextObject w + 1"
    by (simp add: remove_previous_listeners_fields w2_def install_style_eq)
  have unfold: "setup_dual w =
    (let w3 = remove_previous_listeners w2;
            f = nextObject w3;
            w4 = addEventListener ''mouseover'' f False
                   (w3\<lparr>annotationMouseoverListener := Some f\<rparr>);
            w5 = addEventListener ''mouseout'' (f + 1) False
                   (w4\<lparr>annotationMouseoutListener := Some (f + 1)\<rparr>);
            w6 = addEventListener ''click'' (f + 2) True
                   (w5\<lparr>annotationClickListener := Some (f + 2)\<rparr>);
            w7 = w6\<lparr>annotationKeydownListener := Some (f + 3),
                    annotationSelectListener := Some (f + 4),
                    annotationChangeListener := Some (f + 5)\<rparr>;
            w8 = addEventListener ''keydown'' (f + 3) True w7;
            w9 = addEventListener ''mousedown'' (f + 4) True w8;
            w10 = addEventListener ''change'' (f + 5) True w9
        in w10\<lparr>nextObject := f + 6, annotationSetupDone := True\<rparr>)"
    using assms(1) by (simp add: setup_dual_def w2_def Let_def)
  show "listeners (setup_dual w) =
           [(''mouseover'', nextObject w + 1, False), (''mouseout'', nextObject w + 2, False),
            (''click'', nextObject w + 3, True), (''keydown'', nextObject w + 4, True),
            (''mousedown'', nextObject w + 5, True), (''change'', nextObject w + 6, True)]"
    by (simp add: unfold Let_def listeners_addEventListener empty next_obj)
  show "annotationMouseoverListener (setup_dual w) = Some (nextObject w + 1)"
    and "annotationMouseoutListener (setup_dual w) = Some (nextObject w + 2)"
    and "annotationClickListener (setup_dual w) = Some (nextObject w + 3)"
    and "annotationKeydownListener (setup_dual w) = Some (nextObject w + 4)"
    and "annotationSelectListener (setup_dual w) = Some (nextObject w + 5)"
    and "annotationChangeListener (setup_dual w) = Some (nextObject w + 6)"
    and "annotationSetupDone (setup_dual w)"
    and "nextObject (setup_dual w) = nextObject w + 7"
    by (simp_all add: unfold Let_def addEventListener_fields next_obj)
qed

lemma setup_single_installs:
  assumes "\<not> annotationSetupDone w" "listeners_stored w"
  shows "listeners (setup_single w) =
           [(''mouseover'', nextObject w + 1, False), (''mouseout'', nextObject w + 5, False),
            (''click'', nextObject w + 6, True), (''keydown'', nextObject w + 7, True),
            (''mousedown'', nextObject w + 8, True), (''change'', nextObject w + 9, True)]"
    and "annotationMouseoverListener (setup_single w) = Some (nextObject w + 1)"
    and "annotationMouseoutListener (setup_single w) = Some (nextObject w + 5)"
    and "annotationClickListener (setup_single w) = Some (nextObject w + 6)"
    and "annotationKeydownListener (setup_single w) = Some (nextObject w + 7)"
    and "annotationSelectListener (setup_single w) = Some (nextObject w + 8)"
    and "annotationChangeListener (setup_single w) = Some (nextObject w + 9)"
    and "annotationSetupDone (setup_single w)"
    and "nextObject (setup_single w) = nextObject w + 10"
proof -
  define w2 where "w2 = (install_style w)\<lparr>annotationMode := False, selectedElement := None,
      elementLocked := False, currentHighlightedElement := None, lockedElement := None\<rparr>"
  from assms(2) have "listeners_stored w2"
    by (rule listeners_stored_mono) (simp_all add: w2_def install_style_eq)
  then have empty: "listeners (remove_previous_listeners w2) = []"
    by (simp add: remove_previous_listeners_empty)
  have next_obj: "nextObject (remove_previous_listeners w2) = nextObject w + 1"
    by (simp add: remove_previous_listeners_fields w2_def install_style_eq)
  have unfold: "setup_single w =
    (let w3 = remove_previous_listeners w2;
            f = nextObject w3;
            w4 = w3\<lparr>annotationMouseoverListener := Some f,
                    annotationKeydownListener := Some (f + 1),
                    annotationSelectListener := Some (f + 2),
                    annotationChangeListener := Some (f + 3)\<rparr>;
            w5 = addEventListener ''mouseover'' f False w4;
            w6 = addEventListener ''mouseout'' (f + 4) False
                   (w5\<lparr>annotationMouseoutListener := Some (f + 4)\<rparr>);
            w7 = w6\<lparr>annotationClickListener := Some (f + 5),
                    annotationKeydownListener := Some (f + 6),
                    annotationSelectListener := Some (f + 7),
                    annotationChangeListener := Some (f + 8)\<rparr>;
            w8 = addEventListener ''click'' (f + 5) True w7;
            w9 = addEventListener ''keydown'' (f + 6) True w8;
            w10 = addEventListener ''mousedown'' (f + 7) True w9;
            w11 = addEventListener ''change'' (f + 8) True w10
        in w11\<lparr>nextObject := f + 9, annotationSetupDone := True\<rparr>)"
    using assms(1) by (simp add: setup_single_def w2_def Let_def)
  show "listeners (setup_single w) =
           [(''mouseover'', nextObject w + 1, False), (''mouseout'', nextObject w + 5, False),
            (''click'', nextObject w + 6, True), (''keydown'', nextObject w + 7, True),
            (''mousedown'', nextObject w + 8, True), (''change'', nextObject w + 9, True)]"
    by (simp add: unfold Let_def listeners_addEventListener empty next_obj)
  show "annotationMouseoverListener (setup_single w) = Some (nextObject w + 1)"
    and "annotationMouseoutListener (setup_single w) = Some (nextObject w + 5)"
    and "annotationClickListener (setup_single w) = Some (nextObject w + 6)"
    and "annotationKeydownListener (setup_single w) = Some (nextObject w + 7)"
    and "annotationSelectListener (setup_single w) = Some (nextObject w + 8)"
    and "annotationChangeListener (setup_single w) = Some (nextObject w + 9)"
    and "annotationSetupDone (setup_single w)"
    and "nextObject (setup_single w) = nextObject w + 10"
    by (simp_all add: unfold Let_def addEventListener_fields next_obj)
qed

lemma setup_dual_stored:
  assumes "listeners_stored w"
  shows "listeners_stored (setup_dual w)"
proof (cases "annotationSetupDone w")
  case True
  with assms show ?thesis by (simp add: setup_dual_done)
next
  case False
  note inst = setup_dual_installs [OF False assms]
  show ?thesis
    by (simp add: listeners_stored_def stored_listener_def inst)
qed

lemma setup_single_stored:
  assumes "listeners_stored w"
  shows "listeners_stored (setup_single w)"
proof (cases "annotationSetupDone w")
  case True
  with assms show ?thesis by (simp add: setup_single_done)
next
  case False
  note inst = setup_single_installs [OF False assms]
  show ?thesis
    by (simp add: listeners_stored_def stored_listener_def inst)
qed

lemma listeners_stored_at_most_one:
  assumes "listeners_stored w"
  shows "length (active w t) \<le> 1"
proof (cases "stored_listener w t")
  case None
  with assms have "active w t = []"
    by (auto simp add: active_def listeners_stored_def list_all_iff filter_empty_conv)
  then show ?thesis by simp
next
  case (Some fc)
  from assms have d: "distinct (active w t)"
    by (simp add: active_def listeners_stored_def)
  from assms Some have all: "\<forall>l \<in> set (active w t). l = (t, fc)"
    by (auto simp add: active_def listeners_stored_def list_all_iff)
  show ?thesis
  proof (cases "active w t")
    case Nil
    then show ?thesis by simp
  next
    case outer: (Cons a as)
    show ?thesis
    proof (cases as)
      case Nil
      with outer show ?thesis by simp
    next
      case (Cons b bs)
      with outer all d show ?thesis by auto
    qed
  qed
qed

lemma setup_dual_iterate_stored:
  "listeners_stored w \<Longrightarrow> listeners_stored ((setup_dual ^^ n) w)"
  by (induction n) (simp_all add: setup_dual_stored)

lemma setup_single_iterate_stored:
  "listeners_stored w \<Longrightarrow> listeners_stored ((setup_single ^^ n) w)"
  by (induction n) (simp_all add: setup_single_stored)

lemma setup_dual_twice: "setup_dual (setup_dual w) = setup_dual w"
proof (cases "annotationSetupDone w")
  case True
  then show ?thesis by (simp add: setup_dual_done)
next
  case False
  then have "annotationSetupDone (setup_dual w)"
    by (simp add: setup_dual_def Let_def)
  then show ?thesis by (rule setup_dual_done)
qed

lemma setup_single_twice: "setup_single (setup_single w) = setup_single w"
proof (cases "annotationSetupDone w")
  case True
  then show ?thesis by (simp add: setup_single_done)
next
  case False
  then have "annotationSetupDone (setup_single w)"
    by (simp add: setup_single_def Let_def)
  then show ?thesis by (rule setup_single_done)
qed

lemma fresh_window_stored: "listeners_stored fresh_window"
  by (simp add: listeners_stored_def fresh_window_def)

lemma reinjected_window_stored: "listeners_stored reinjected_window"
  using setup_dual_stored [OF fresh_window_stored]
  by (rule listeners_stored_mono) (simp_all add: reinjected_window_def)

lemma setup_replaces_listeners:
  assumes "listeners_stored w"
    and "\<forall>l \<in> set ls. fst (snd l) > nextObject w"
  shows "set (listeners w) \<inter> set ls = {}"
proof -
  have "\<forall>l \<in> set (listeners w). fst (snd l) < nextObject w"
    using assms(1) by (auto simp add: listeners_stored_def list_all_iff)
  with assms(2) show ?thesis by fastforce
qed

text \<open>
  C8: with the setup flag set, setup returns at once and changes nothing. Otherwise, in a
  window whose attached listeners are the stored ones, it detaches every stored listener
  and attaches six new ones, one for each event type, which it stores; none of the
  listeners attached before remains; the flag is set when it returns (in the definition,
  as in the script, it is the last assignment). So however often setup runs, at most one
  listener of each type is attached, and running setup twice is running it once. Both
  variants.
\<close>

theorem setup_idempotent:
  "(annotationSetupDone w1 \<longrightarrow> setup_dual w1 = w1 \<and> setup_single w1 = w1)
   \<and> (\<not> annotationSetupDone w \<and> listeners_stored w \<longrightarrow>
        listeners (setup_dual w) =
           [(''mouseover'', nextObject w + 1, False), (''mouseout'', nextObject w + 2, False),
            (''click'', nextObject w + 3, True), (''keydown'', nextObject w + 4, True),
            (''mousedown'', nextObject w + 5, True), (''change'', nextObject w + 6, True)]
        \<and> set (listeners w) \<inter> set (listeners (setup_dual w)) = {}
        \<and> listeners_stored (setup_dual w)
        \<and> annotationSetupDone (setup_dual w)
        \<and> listeners (setup_single w) =
           [(''mouseover'', nextObject w + 1, False), (''mouseout'', nextObject w + 5, False),
            (''click'', nextObject w + 6, True), (''keydown'', nextObject w + 7, True),
            (''mousedown'', nextObject w + 8, True), (''change'', nextObject w + 9, True)]
        \<and> set (listeners w) \<inter> set (listeners (setup_single w)) = {}
        \<and> listeners_stored (setup_single w)
        \<and> annotationSetupDone (setup_single w))
   \<and> (listeners_stored w2 \<longrightarrow>
        length (active ((setup_dual ^^ n) w2) t) \<le> 1
        \<and> length (active ((setup_single ^^ n) w2) t) \<le> 1)
   \<and> setup_dual (setup_dual w3) = setup_dual w3
   \<and> setup_single (setup_single w3) = setup_single w3"
proof -
  have a: "annotationSetupDone w1 \<longrightarrow> setup_dual w1 = w1 \<and> setup_single w1 = w1"
    by (simp add: setup_dual_done setup_single_done)
  have c: "listeners_stored w2 \<longrightarrow>
        length (active ((setup_dual ^^ n) w2) t) \<le> 1
        \<and> length (active ((setup_single ^^ n) w2) t) \<le> 1"
    using setup_dual_iterate_stored setup_single_iterate_stored listeners_stored_at_most_one
    by blast
  { assume h: "\<not> annotationSetupDone w" "listeners_stored w"
    note d = setup_dual_installs(1,8) [OF h]
    note s = setup_single_installs(1,8) [OF h]
    have "set (listeners w) \<inter> set (listeners (setup_dual w)) = {}"
      by (rule setup_replaces_listeners [OF h(2)]) (simp add: d)
    moreover have "set (listeners w) \<inter> set (listeners (setup_single w)) = {}"
      by (rule setup_replaces_listeners [OF h(2)]) (simp add: s)
    ultimately have "listeners (setup_dual w) =
           [(''mouseover'', nextObject w + 1, False), (''mouseout'', nextObject w + 2, False),
            (''click'', nextObject w + 3, True), (''keydown'', nextObject w + 4, True),
            (''mousedown'', nextObject w + 5, True), (''change'', nextObject w + 6, True)]
        \<and> set (listeners w) \<inter> set (listeners (setup_dual w)) = {}
        \<and> listeners_stored (setup_dual w)
        \<and> annotationSetupDone (setup_dual w)
        \<and> listeners (setup_single w) =
           [(''mouseover'', nextObject w + 1, False), (''mouseout'', nextObject w + 5, False),
            (''click'', nextObject w + 6, True), (''keydown'', nextObject w + 7, True),
            (''mousedown'', nextObject w + 8, True), (''change'', nextObject w + 9, True)]
        \<and> set (listeners w) \<inter> set (listeners (setup_single w)) = {}
        \<and> listeners_stored (setup_single w)
        \<and> annotationSetupDone (setup_single w)"
      using d s setup_dual_stored [OF h(2)] setup_single_stored [OF h(2)] by blast }
  with a c show ?thesis
    using setup_dual_twice [of w3] setup_single_twice [of w3] by blast
qed

text \<open>
  On the page: a second setup after the first changes nothing; when the flag has been
  cleared, setup replaces the six listeners 1 to 6 by the new listeners 8 to 13, and
  three runs in a row leave one click listener.
\<close>

theorem setup_idempotent_witness:
  "annotationSetupDone (setup_dual fresh_window)
   \<and> setup_dual (setup_dual fresh_window) = setup_dual fresh_window
   \<and> \<not> annotationSetupDone reinjected_window \<and> listeners_stored reinjected_window
   \<and> listeners reinjected_window =
        [(''mouseover'', 1, False), (''mouseout'', 2, False), (''click'', 3, True),
         (''keydown'', 4, True), (''mousedown'', 5, True), (''change'', 6, True)]
   \<and> listeners (setup_dual reinjected_window) =
        [(''mouseover'', 8, False), (''mouseout'', 9, False), (''click'', 10, True),
         (''keydown'', 11, True), (''mousedown'', 12, True), (''change'', 13, True)]
   \<and> length (active ((setup_dual ^^ 3) reinjected_window) ''click'') \<le> 1"
proof -
  have nd: "\<not> annotationSetupDone fresh_window" by (simp add: fresh_window_def)
  note first = setup_dual_installs [OF nd fresh_window_stored]
  have isdone: "annotationSetupDone (setup_dual fresh_window)" by (rule first(8))
  have flag: "\<not> annotationSetupDone reinjected_window" by (simp add: reinjected_window_def)
  have n0: "nextObject fresh_window = 0" by (simp add: fresh_window_def)
  have ls: "listeners reinjected_window =
        [(''mouseover'', 1, False), (''mouseout'', 2, False), (''click'', 3, True),
         (''keydown'', 4, True), (''mousedown'', 5, True), (''change'', 6, True)]"
    using first(1) n0 by (simp add: reinjected_window_def)
  have nx: "nextObject reinjected_window = 7"
    using first(9) n0 by (simp add: reinjected_window_def)
  show ?thesis
    using setup_idempotent [of "setup_dual fresh_window" reinjected_window reinjected_window
        3 "''click''" fresh_window]
      isdone flag ls nx reinjected_window_stored
    by simp
qed

section \<open>Clicks\<close>

lemma elementData_classes:
  "classList w' e = classList w e \<Longrightarrow> elementData d w' e xp = elementData d w e xp"
  by (simp add: elementData_def className_def getAttributes_def element_attributes_def)

lemma describes_classes:
  "describes d w c e \<Longrightarrow> classList w' e = classList w e \<Longrightarrow> describes d w' c e"
  by (cases "getXPath d e") (simp_all add: describes_def elementData_classes [of w' e w])

lemma describes_elementData:
  "getXPath d e = Some xp \<Longrightarrow> xp \<noteq> TypeError \<Longrightarrow> describes d w (elementData d w e xp) e"
  by (simp add: describes_def)

text \<open>Three ways in which a step keeps the invariant of the secondary selections.\<close>

lemma secondary_inv_emptied:
  "secondaryElements w' = [] \<Longrightarrow> secondaryActualElement w' = [] \<Longrightarrow> secondary_inv d w'"
  by (simp add: secondary_inv_def index_aligned_def)

lemma secondary_inv_kept:
  assumes "secondary_inv d w"
    and "secondaryElements w' = secondaryElements w"
    and "secondaryActualElement w' = secondaryActualElement w"
    and "\<forall>e \<in> set (secondaryActualElement w). classList w' e = classList w e"
    and "elementLocked w' \<or> secondaryActualElement w = []"
  shows "secondary_inv d w'"
proof -
  have "describes d w' (secondaryElements w ! i) (secondaryActualElement w ! i)"
    if "i < length (secondaryElements w)" for i
  proof -
    from that assms(1) have "secondaryActualElement w ! i \<in> set (secondaryActualElement w)"
      by (simp add: secondary_inv_def index_aligned_def)
    with assms(4) have "classList w' (secondaryActualElement w ! i)
        = classList w (secondaryActualElement w ! i)"
      by blast
    moreover from that assms(1)
    have "describes d w (secondaryElements w ! i) (secondaryActualElement w ! i)"
      by (simp add: secondary_inv_def index_aligned_def)
    ultimately show ?thesis by (rule describes_classes [rotated])
  qed
  with assms show ?thesis
    by (simp add: secondary_inv_def index_aligned_def list_all_iff classList_contains_def)
qed

lemma secondary_inv_appended:
  assumes "secondary_inv d w" "elementLocked w'"
    and "secondaryElements w' = secondaryElements w @ [c]"
    and "secondaryActualElement w' = secondaryActualElement w @ [e]"
    and "\<forall>x \<in> set (secondaryActualElement w). classList w' x = classList w x"
    and "describes d w' c e"
    and "classList_contains w' e secondary" "\<not> classList_contains w' e highlight"
  shows "secondary_inv d w'"
proof -
  from assms(1) have len: "length (secondaryElements w) = length (secondaryActualElement w)"
    by (simp add: secondary_inv_def index_aligned_def)
  have "describes d w' (secondaryElements w' ! i) (secondaryActualElement w' ! i)"
    if "i < length (secondaryElements w')" for i
  proof (cases "i < length (secondaryElements w)")
    case True
    with len have "secondaryActualElement w ! i \<in> set (secondaryActualElement w)" by simp
    with assms(5) have "classList w' (secondaryActualElement w ! i)
        = classList w (secondaryActualElement w ! i)"
      by blast
    moreover from True assms(1)
    have "describes d w (secondaryElements w ! i) (secondaryActualElement w ! i)"
      by (simp add: secondary_inv_def index_aligned_def)
    ultimately have "describes d w' (secondaryElements w ! i) (secondaryActualElement w ! i)"
      by (rule describes_classes [rotated])
    with True len assms(3,4) show ?thesis by (simp add: nth_append)
  next
    case False
    with that assms(3) have "i = length (secondaryElements w)" by simp
    with len assms(3,4,6) show ?thesis by (simp add: nth_append)
  qed
  with assms len show ?thesis
    by (simp add: secondary_inv_def index_aligned_def list_all_iff classList_contains_def)
qed

lemma secondary_inv_setup: "\<not> annotationSetupDone w0 \<Longrightarrow> secondary_inv d (setup_dual w0)"
  by (rule secondary_inv_emptied) (simp_all add: setup_dual_resets)

lemma secondary_inv_mouseover:
  assumes "secondary_inv d w"
  shows "secondary_inv d (annotationMouseoverListener_dual w x)"
  using assms
proof (rule secondary_inv_kept)
  show "secondaryElements (annotationMouseoverListener_dual w x) = secondaryElements w"
    "secondaryActualElement (annotationMouseoverListener_dual w x) = secondaryActualElement w"
    by (simp_all add: annotationMouseoverListener_dual_def Let_def classList_add_eq
        classList_remove_def split: option.splits)
  from assms show "elementLocked (annotationMouseoverListener_dual w x)
      \<or> secondaryActualElement w = []"
    by (simp add: secondary_inv_def annotationMouseoverListener_dual_def Let_def classList_add_eq
        classList_remove_def split: option.splits)
  from assms show "\<forall>e \<in> set (secondaryActualElement w).
      classList (annotationMouseoverListener_dual w x) e = classList w e"
    by (auto simp add: secondary_inv_def list_all_iff classList_contains_def
        annotationMouseoverListener_dual_def Let_def classList_add_eq classList_remove_def
        filter_id_conv split: option.splits)
qed

lemma secondary_inv_mouseout:
  assumes "secondary_inv d w"
  shows "secondary_inv d (annotationMouseoutListener_dual w x)"
  using assms
proof (rule secondary_inv_kept)
  show "secondaryElements (annotationMouseoutListener_dual w x) = secondaryElements w"
    "secondaryActualElement (annotationMouseoutListener_dual w x) = secondaryActualElement w"
    by (simp_all add: annotationMouseoutListener_dual_def classList_remove_def)
  from assms show "elementLocked (annotationMouseoutListener_dual w x)
      \<or> secondaryActualElement w = []"
    by (simp add: secondary_inv_def annotationMouseoutListener_dual_def classList_remove_def)
  from assms show "\<forall>e \<in> set (secondaryActualElement w).
      classList (annotationMouseoutListener_dual w x) e = classList w e"
    by (auto simp add: secondary_inv_def list_all_iff classList_contains_def
        annotationMouseoutListener_dual_def classList_remove_def filter_id_conv)
qed

lemma secondary_inv_unlock:
  assumes "secondary_inv d w"
  shows "secondary_inv d (snd (unlockElement_dual w))"
proof (rule secondary_inv_emptied)
  show "secondaryActualElement (snd (unlockElement_dual w)) = []"
    by (rule unlockElement_dual_after)
  from assms have "length (secondaryElements w) = length (secondaryActualElement w)"
    by (simp add: secondary_inv_def index_aligned_def)
  then show "secondaryElements (snd (unlockElement_dual w)) = []"
    by (rule unlockElement_dual_collections)
qed

lemma secondary_inv_mode:
  assumes "secondary_inv d w"
  shows "secondary_inv d (setAnnotationMode_dual w x)"
proof (cases "truthy x")
  case True
  from assms show ?thesis
    by (rule secondary_inv_kept)
       (use assms True in \<open>simp_all add: setAnnotationMode_dual_on secondary_inv_def\<close>)
next
  case False
  then show ?thesis
    by (simp add: secondary_inv_emptied setAnnotationMode_dual_off)
qed


lemma click_dual_primary:
  assumes "annotationMode w" "\<not> elementLocked w" "nodeType d (target ev) = 1"
    "getXPath d (target ev) = Some xp" "xp \<noteq> TypeError"
  shows "annotationClickListener_dual d w ev =
    Some (Returned,
          fetch ''http://127.0.0.1:8080/api/notify-primary-selected''
            ((classList_add (classList_remove (w\<lparr>elementLocked := True\<rparr>) (target ev) highlight)
                (target ev) primary)
               \<lparr>selectedElement := Some (elementData d
                    (classList_add (classList_remove (w\<lparr>elementLocked := True\<rparr>) (target ev)
                       highlight) (target ev) primary) (target ev) xp),
                lockedElement := Some (target ev)\<rparr>),
          cancelled ev)"
  using assms
  by (simp add: annotationClickListener_dual_def Let_def cancelled_def)

lemma click_dual_secondary:
  assumes "annotationMode w" "elementLocked w" "lockedElement w \<noteq> Some (target ev)"
    "\<not> classList_contains w (target ev) secondary" "nodeType d (target ev) = 1"
    "getXPath d (target ev) = Some xp" "xp \<noteq> TypeError"
  shows "annotationClickListener_dual d w ev =
    Some (Returned,
          fetch ''http://127.0.0.1:8080/api/notify-secondary-selected''
            ((classList_add (classList_remove w (target ev) highlight) (target ev) secondary)
               \<lparr>secondaryElements := secondaryElements w @
                  [elementData d (classList_add (classList_remove w (target ev) highlight)
                     (target ev) secondary) (target ev) xp],
                secondaryActualElement := secondaryActualElement w @ [target ev]\<rparr>),
          cancelled ev)"
  using assms
  by (simp add: annotationClickListener_dual_def Let_def cancelled_def classList_contains_def
      classList_add_eq classList_remove_def)

text \<open>A click that throws while a secondary selection is being taken.\<close>

lemma click_dual_secondary_thrown:
  assumes "annotationMode w" "elementLocked w" "lockedElement w \<noteq> Some (target ev)"
    "\<not> classList_contains w (target ev) secondary" "nodeType d (target ev) = 1"
    "getXPath d (target ev) = Some TypeError"
  shows "annotationClickListener_dual d w ev =
    Some (Thrown, classList_add (classList_remove w (target ev) highlight) (target ev) secondary,
          cancelled ev)"
  using assms
  by (simp add: annotationClickListener_dual_def Let_def cancelled_def classList_contains_def
      classList_add_eq classList_remove_def)

text \<open>A click that takes no secondary selection leaves the window as it is.\<close>

lemma click_dual_skipped:
  assumes "annotationMode w \<longrightarrow> elementLocked w"
    and "\<not> annotationMode w \<or> nodeType d (target ev) \<noteq> 1
         \<or> classList_contains w (target ev) secondary \<or> lockedElement w = Some (target ev)"
    and "annotationClickListener_dual d w ev = Some (c, w', ev')"
  shows "w' = w"
  using assms
  by (auto simp add: annotationClickListener_dual_def Let_def split: if_splits)

text \<open>A click with nothing locked leaves the two arrays as they are.\<close>

lemma click_dual_unlocked_arrays:
  assumes "\<not> elementLocked w"
    and "annotationClickListener_dual d w ev = Some (c, w', ev')"
  shows "secondaryElements w' = secondaryElements w
         \<and> secondaryActualElement w' = secondaryActualElement w"
  using assms
  by (auto simp add: annotationClickListener_dual_def Let_def bind_eq_Some_conv fetch_def
      classList_add_eq classList_remove_def split: if_splits)

lemma secondary_inv_click:
  assumes inv: "secondary_inv d w"
    and click: "annotationClickListener_dual d w ev = Some (c, w', ev')"
  shows "secondary_inv d w'"
proof (cases "elementLocked w")
  case False
  with inv have "secondaryActualElement w = []" "secondaryElements w = []"
    by (auto simp add: secondary_inv_def index_aligned_def)
  with click_dual_unlocked_arrays [OF False click] show ?thesis
    by (simp add: secondary_inv_emptied)
next
  case locked: True
  show ?thesis
  proof (cases "\<not> annotationMode w \<or> nodeType d (target ev) \<noteq> 1
         \<or> classList_contains w (target ev) secondary \<or> lockedElement w = Some (target ev)")
    case True
    with locked click have "w' = w" using click_dual_skipped by blast
    with inv show ?thesis by simp
  next
    case False
    then have q: "annotationMode w" "nodeType d (target ev) = 1"
      "\<not> classList_contains w (target ev) secondary" "lockedElement w \<noteq> Some (target ev)"
      by simp_all
    let ?w2 = "classList_add (classList_remove w (target ev) highlight) (target ev) secondary"
    from inv q(3) have other: "\<forall>x \<in> set (secondaryActualElement w). x \<noteq> target ev"
      by (auto simp add: secondary_inv_def list_all_iff)
    then have same: "\<forall>x \<in> set (secondaryActualElement w). classList ?w2 x = classList w x"
      by (simp add: classList_add_eq classList_remove_def)
    from click q locked obtain xp where xp: "getXPath d (target ev) = Some xp"
      by (auto simp add: annotationClickListener_dual_def Let_def bind_eq_Some_conv
          classList_contains_def)
    show ?thesis
    proof (cases "xp = TypeError")
      case True
      with xp q locked click have "w' = ?w2"
        using click_dual_secondary_thrown [of w ev d] by simp
      moreover from inv have "secondary_inv d ?w2"
        by (rule secondary_inv_kept)
           (use same locked in \<open>simp_all add: classList_add_eq classList_remove_def\<close>)
      ultimately show ?thesis by simp
    next
      case False
      let ?c = "elementData d ?w2 (target ev) xp"
      let ?w' = "fetch ''http://127.0.0.1:8080/api/notify-secondary-selected''
            (?w2\<lparr>secondaryElements := secondaryElements w @ [?c],
                 secondaryActualElement := secondaryActualElement w @ [target ev]\<rparr>)"
      from xp False q locked click have w': "w' = ?w'"
        using click_dual_secondary [of w ev d xp] by simp
      have cl: "classList ?w' = classList ?w2"
        by (simp add: fetch_def)
      from inv have "secondary_inv d ?w'"
      proof (rule secondary_inv_appended)
        show "elementLocked ?w'"
          using locked by (simp add: fetch_def classList_add_eq classList_remove_def)
        show "secondaryElements ?w' = secondaryElements w @ [?c]"
          "secondaryActualElement ?w' = secondaryActualElement w @ [target ev]"
          by (simp_all add: fetch_def)
        show "\<forall>x \<in> set (secondaryActualElement w). classList ?w' x = classList w x"
          using same cl by simp
        have "describes d ?w2 ?c (target ev)"
          using xp False by (rule describes_elementData)
        then show "describes d ?w' ?c (target ev)"
          by (rule describes_classes) (simp add: cl)
        show "classList_contains ?w' (target ev) secondary"
          "\<not> classList_contains ?w' (target ev) highlight"
          by (simp_all add: classList_contains_def fetch_def classList_add_eq
              classList_remove_def)
      qed
      with w' show ?thesis by simp
    qed
  qed
qed

text \<open>Every state the dual-role script reaches from setup keeps the invariant.\<close>

lemma reachable_dual_inv: "reachable_dual d w \<Longrightarrow> secondary_inv d w"
proof (induction rule: reachable_dual.induct)
  case (after_setup w0)
  then show ?case by (rule secondary_inv_setup)
next
  case (after_mouseover w e)
  then show ?case by (simp add: secondary_inv_mouseover)
next
  case (after_mouseout w e)
  then show ?case by (simp add: secondary_inv_mouseout)
next
  case (after_click w ev c w' ev')
  then show ?case using secondary_inv_click by blast
next
  case (after_unlock w)
  then show ?case by (simp add: secondary_inv_unlock)
next
  case (after_mode w enabled)
  then show ?case by (simp add: secondary_inv_mode)
qed

lemma reachable_dual_aligned: "reachable_dual d w \<Longrightarrow> index_aligned d w"
  using reachable_dual_inv [of d w] by (simp add: secondary_inv_def)



section \<open>The sessions on the page\<close>

lemma session_dual_facts:
  "annotationMode session_dual" "\<not> elementLocked session_dual"
  "selectedElement session_dual = None" "lockedElement session_dual = None"
  "currentHighlightedElement session_dual = None"
  "secondaryActualElement session_dual = []" "secondaryElements session_dual = []"
  "classList session_dual = (\<lambda>n. [])"
  by (simp_all add: session_dual_def setAnnotationMode_dual_on setup_dual_resets fresh_window_def)

lemma session_single_facts:
  "annotationMode session_single" "\<not> elementLocked session_single"
  "selectedElement session_single = None" "lockedElement session_single = None"
  "currentHighlightedElement session_single = None"
  "classList session_single = (\<lambda>n. [])"
  by (simp_all add: session_single_def setAnnotationMode_single_on setup_single_resets
      fresh_window_def)

lemma page_element: "nodeType page 9 = 1" "nodeType page 6 = 1"
  by (simp_all add: page_def)

lemma page_attributes: "attributes page 9 = []" "attributes page 6 = []"
  by (simp_all add: page_def)

lemma getXPath_page_div: "getXPath page 9 = Some (Locator ''/html/body/div[1]'')"
  by (simp add: getXPath.simps page_def toLowerCase_def lower_char_def string_of_nat.simps)

lemma getXPath_page_first_li: "getXPath page 6 = Some (Locator ''//*[@id=\"list\"]/li[1]'')"
  by (simp add: getXPath.simps page_def toLowerCase_def lower_char_def string_of_nat.simps)


lemma reachable_session_dual: "reachable_dual page session_dual"
  unfolding session_dual_def
  by (rule reachable_dual.after_mode, rule reachable_dual.after_setup)
     (simp add: fresh_window_def)

lemma after_dual_click_eq:
  "annotationClickListener_dual page w (event_at e) = Some (c, w', ev')
   \<Longrightarrow> after_dual_click w e = w'"
  by (simp add: after_dual_click_def)


text \<open>After the first click, on the \<open>div\<close>: it is the primary selection.\<close>

lemma after_primary_click:
  "annotationClickListener_dual page session_dual (event_at 9) =
     Some (Returned, after_dual_click session_dual 9, cancelled (event_at 9))"
  by (simp add: after_dual_click_def click_dual_primary [where xp = "Locator ''/html/body/div[1]''"]
      session_dual_facts getXPath_page_div event_at_def page_element)

lemma after_primary_facts:
  "annotationMode (after_dual_click session_dual 9)"
  "elementLocked (after_dual_click session_dual 9)"
  "lockedElement (after_dual_click session_dual 9) = Some 9"
  "classList (after_dual_click session_dual 9) = (\<lambda>n. [])(9 := [primary])"
  "secondaryActualElement (after_dual_click session_dual 9) = []"
  "secondaryElements (after_dual_click session_dual 9) = []"
  "currentHighlightedElement (after_dual_click session_dual 9) = None"
  "data_xpath (the (selectedElement (after_dual_click session_dual 9)))
     = Some ''/html/body/div[1]''"
  "data_className (the (selectedElement (after_dual_click session_dual 9)))
     = ''annotation-primary''"
  "data_attributes (the (selectedElement (after_dual_click session_dual 9)))
     = [(''class'', ''annotation-primary'')]"
  by (simp_all add: after_dual_click_def click_dual_primary [where xp = "Locator ''/html/body/div[1]''"]
      session_dual_facts getXPath_page_div event_at_def classList_add_eq classList_remove_def
      fetch_def elementData_def page_element className_def getAttributes_def
      element_attributes_def page_attributes primary_def)

lemma reachable_after_primary: "reachable_dual page (after_dual_click session_dual 9)"
  using reachable_session_dual after_primary_click by (rule reachable_dual.after_click)

text \<open>After the second click, on the first \<open>li\<close>: it is a secondary selection.\<close>

lemma after_secondary_state:
  "annotationClickListener_dual page (after_dual_click session_dual 9) (event_at 6) =
    Some (Returned,
          fetch ''http://127.0.0.1:8080/api/notify-secondary-selected''
            ((classList_add (classList_remove (after_dual_click session_dual 9)
                 (target (event_at 6)) highlight) (target (event_at 6)) secondary)
               \<lparr>secondaryElements := secondaryElements (after_dual_click session_dual 9) @
                  [elementData page
                     (classList_add (classList_remove (after_dual_click session_dual 9)
                        (target (event_at 6)) highlight) (target (event_at 6)) secondary)
                     (target (event_at 6)) (Locator ''//*[@id=\"list\"]/li[1]'')],
                secondaryActualElement :=
                  secondaryActualElement (after_dual_click session_dual 9)
                  @ [target (event_at 6)]\<rparr>),
          cancelled (event_at 6))"
  by (rule click_dual_secondary)
     (simp_all add: after_primary_facts getXPath_page_first_li event_at_def
      classList_contains_def page_element)

lemma after_secondary_click:
  "annotationClickListener_dual page (after_dual_click session_dual 9) (event_at 6) =
     Some (Returned, after_dual_click (after_dual_click session_dual 9) 6, cancelled (event_at 6))"
  using after_secondary_state after_dual_click_eq [OF after_secondary_state] by simp

lemma after_secondary_facts:
  "annotationMode (after_dual_click (after_dual_click session_dual 9) 6)"
  "elementLocked (after_dual_click (after_dual_click session_dual 9) 6)"
  "lockedElement (after_dual_click (after_dual_click session_dual 9) 6) = Some 9"
  "classList (after_dual_click (after_dual_click session_dual 9) 6)
     = (\<lambda>n. [])(9 := [primary], 6 := [secondary])"
  "secondaryActualElement (after_dual_click (after_dual_click session_dual 9) 6) = [6]"
  "length (secondaryElements (after_dual_click (after_dual_click session_dual 9) 6)) = 1"
  "map data_className (secondaryElements (after_dual_click (after_dual_click session_dual 9) 6))
     = [''annotation-secondary'']"
  "map data_attributes (secondaryElements (after_dual_click (after_dual_click session_dual 9) 6))
     = [[(''class'', ''annotation-secondary'')]]"
  by (simp_all add: after_dual_click_eq [OF after_secondary_state] after_primary_facts
      event_at_def classList_add_eq classList_remove_def fetch_def elementData_def className_def
      getAttributes_def element_attributes_def page_attributes secondary_def)


lemma reachable_after_secondary:
  "reachable_dual page (after_dual_click (after_dual_click session_dual 9) 6)"
  using reachable_after_primary after_secondary_click by (rule reachable_dual.after_click)

section \<open>Pointer events\<close>

lemma run_pointer_dual_snoc:
  "run_pointer_dual w (evs @ [ev]) = dispatch_pointer_dual (run_pointer_dual w evs) ev"
  by (simp add: run_pointer_dual_def)

lemma entered_unlocked_append:
  "entered_unlocked w (evs @ evs') = entered_unlocked w evs @ entered_unlocked w evs'"
  by (induction w evs rule: entered_unlocked.induct) simp_all

lemma pointer_inv_mouseover:
  assumes "pointer_inv w evs w'"
  shows "pointer_inv w (evs @ [Mouseover e]) (annotationMouseoverListener_dual w' e)"
proof (cases "classList_contains w e primary \<or> classList_contains w e secondary")
  case True
  with assms show ?thesis
    by (simp add: pointer_inv_def annotationMouseoverListener_dual_def most_recently_entered_def
        entered_unlocked_append)
next
  case False
  with assms show ?thesis
    by (auto simp add: pointer_inv_def annotationMouseoverListener_dual_def
        most_recently_entered_def entered_unlocked_append classList_contains_def
        highlight_tracked_def classList_add_eq classList_remove_def Let_def
        split: option.splits list.splits)
qed

lemma pointer_inv_mouseout:
  assumes "pointer_inv w evs w'"
  shows "pointer_inv w (evs @ [Mouseout e]) (annotationMouseoutListener_dual w' e)"
  using assms
  by (auto simp add: pointer_inv_def annotationMouseoutListener_dual_def
      most_recently_entered_def entered_unlocked_append classList_contains_def
      highlight_tracked_def classList_remove_def)

lemma pointer_inv_run:
  "highlight_tracked w \<Longrightarrow> annotationMode w \<Longrightarrow> pointer_inv w evs (run_pointer_dual w evs)"
proof (induction evs rule: rev_induct)
  case Nil
  then show ?case
    by (simp add: pointer_inv_def run_pointer_dual_def most_recently_entered_def)
next
  case (snoc ev evs)
  then have "pointer_inv w evs (run_pointer_dual w evs)" by simp
  then show ?case
    by (cases ev) (simp_all add: run_pointer_dual_snoc pointer_inv_mouseover pointer_inv_mouseout)
qed

text \<open>
  That only the tracked element carries the highlight class holds after setup on a page
  where no element carries that class, and clicks, \<open>unlockElement\<close> and
  \<open>setAnnotationMode\<close> keep it.
\<close>

lemma highlight_tracked_after_setup:
  "\<not> annotationSetupDone w0 \<Longrightarrow> \<forall>e. highlight \<notin> set (classList w0 e)
   \<Longrightarrow> highlight_tracked (setup_dual w0)"
  by (simp add: highlight_tracked_def setup_dual_resets)

lemma highlight_tracked_unlock:
  "highlight_tracked w \<Longrightarrow> highlight_tracked (snd (unlockElement_dual w))"
  by (auto simp add: highlight_tracked_def unlockElement_dual_def Let_def remove_secondary_eq
      classList_remove_def split: option.splits if_splits)

lemma highlight_tracked_mode:
  "highlight_tracked w \<Longrightarrow> highlight_tracked (setAnnotationMode_dual w x)"
  by (auto simp add: highlight_tracked_def setAnnotationMode_dual_def unlockElement_dual_def
      Let_def remove_secondary_eq classList_remove_def split: option.splits if_splits)

lemma highlight_tracked_click:
  "highlight_tracked w \<Longrightarrow> annotationClickListener_dual d w ev = Some (c, w', ev')
   \<Longrightarrow> highlight_tracked w'"
  by (auto simp add: highlight_tracked_def annotationClickListener_dual_def Let_def
      bind_eq_Some_conv fetch_def classList_add_eq classList_remove_def split: if_splits)

text \<open>
  C3: in a window where only the tracked element carries the highlight class and
  annotation mode is active, after every sequence of mouseover and mouseout events at
  most one element carries the highlight class, and an element that carries it is the
  most recently entered element without a locked-role class; a mouseover on an element
  with a locked-role class changes nothing.
\<close>

theorem highlight_tracker:
  "(highlight_tracked w \<and> annotationMode w \<longrightarrow>
      (\<forall>a b. highlight \<in> set (classList (run_pointer_dual w evs) a)
              \<and> highlight \<in> set (classList (run_pointer_dual w evs) b) \<longrightarrow> a = b)
      \<and> (\<forall>a. highlight \<in> set (classList (run_pointer_dual w evs) a)
              \<longrightarrow> most_recently_entered w evs = Some a))
   \<and> (classList_contains w2 e primary \<or> classList_contains w2 e secondary \<longrightarrow>
        annotationMouseoverListener_dual w2 e = w2)"
proof -
  have "annotationMouseoverListener_dual w2 e = w2"
    if "classList_contains w2 e primary \<or> classList_contains w2 e secondary"
    using that by (simp add: annotationMouseoverListener_dual_def)
  moreover
  { assume "highlight_tracked w" "annotationMode w"
    then have inv: "pointer_inv w evs (run_pointer_dual w evs)" by (rule pointer_inv_run)
    have "(\<forall>a b. highlight \<in> set (classList (run_pointer_dual w evs) a)
              \<and> highlight \<in> set (classList (run_pointer_dual w evs) b) \<longrightarrow> a = b)
      \<and> (\<forall>a. highlight \<in> set (classList (run_pointer_dual w evs) a)
              \<longrightarrow> most_recently_entered w evs = Some a)"
    proof (intro conjI allI impI)
      fix a b
      assume "highlight \<in> set (classList (run_pointer_dual w evs) a)
              \<and> highlight \<in> set (classList (run_pointer_dual w evs) b)"
      with inv have "currentHighlightedElement (run_pointer_dual w evs) = Some a"
        "currentHighlightedElement (run_pointer_dual w evs) = Some b"
        by (simp_all add: pointer_inv_def highlight_tracked_def)
      then show "a = b" by simp
    next
      fix a
      assume "highlight \<in> set (classList (run_pointer_dual w evs) a)"
      with inv have "currentHighlightedElement (run_pointer_dual w evs) = Some a"
        by (simp add: pointer_inv_def highlight_tracked_def)
      with inv show "most_recently_entered w evs = Some a"
        by (auto simp: pointer_inv_def)
    qed }
  ultimately show ?thesis by blast
qed

text \<open>
  On the page, with annotation mode on: the pointer enters the \<open>div\<close>, enters the first
  \<open>li\<close>, then a mouseout of the \<open>div\<close> arrives; the first \<open>li\<close> is highlighted. After the
  \<open>div\<close> has become the primary selection, entering it changes nothing.
\<close>

theorem highlight_tracker_witness:
  "highlight_tracked session_dual \<and> annotationMode session_dual
   \<and> highlight \<in> set (classList
         (run_pointer_dual session_dual [Mouseover 9, Mouseover 6, Mouseout 9]) 6)
   \<and> most_recently_entered session_dual [Mouseover 9, Mouseover 6, Mouseout 9] = Some 6
   \<and> classList_contains (after_dual_click session_dual 9) 9 primary
   \<and> annotationMouseoverListener_dual (after_dual_click session_dual 9) 9
       = after_dual_click session_dual 9"
proof -
  have t: "highlight_tracked session_dual"
    by (simp add: highlight_tracked_def session_dual_facts)
  have h: "highlight \<in> set (classList
         (run_pointer_dual session_dual [Mouseover 9, Mouseover 6, Mouseout 9]) 6)"
    by (simp add: run_pointer_dual_def annotationMouseoverListener_dual_def
        annotationMouseoutListener_dual_def session_dual_facts classList_contains_def
        classList_add_eq classList_remove_def Let_def)
  have p: "classList_contains (after_dual_click session_dual 9) 9 primary"
    by (simp add: classList_contains_def after_primary_facts)
  show ?thesis
    using highlight_tracker [of session_dual "[Mouseover 9, Mouseover 6, Mouseout 9]"
        "after_dual_click session_dual 9" 9] t h p session_dual_facts(1)
    by blast
qed

section \<open>The selection state machine\<close>





text \<open>
  C4: \<open>unlockElement\<close> always returns \<open>true\<close>, and calling it a second time gives the
  same result and the same window as calling it once. After it the locked element
  reference and the stored selection are cleared, the lock flag is false, the element
  that was locked no longer carries its role class; in the dual-role variant the element
  array is empty, no element that was stored as secondary carries the secondary class,
  and the capture array is empty whenever the two arrays had the same length, so in
  every state reachable from setup. With nothing locked it leaves the window as it is.
\<close>

theorem unlockElement_idempotent:
  "unlockElement_dual (snd (unlockElement_dual w)) = unlockElement_dual w
   \<and> unlockElement_single (snd (unlockElement_single w)) = unlockElement_single w
   \<and> fst (unlockElement_dual w) = True \<and> fst (unlockElement_single w) = True
   \<and> lockedElement (snd (unlockElement_dual w)) = None
   \<and> \<not> elementLocked (snd (unlockElement_dual w))
   \<and> selectedElement (snd (unlockElement_dual w)) = None
   \<and> secondaryActualElement (snd (unlockElement_dual w)) = []
   \<and> (length (secondaryElements w) = length (secondaryActualElement w) \<longrightarrow>
        secondaryElements (snd (unlockElement_dual w)) = [])
   \<and> (reachable_dual d w \<longrightarrow> secondaryElements (snd (unlockElement_dual w)) = [])
   \<and> (\<forall>l. lockedElement w = Some l \<longrightarrow>
        \<not> classList_contains (snd (unlockElement_dual w)) l primary)
   \<and> (\<forall>e \<in> set (secondaryActualElement w).
        \<not> classList_contains (snd (unlockElement_dual w)) e secondary)
   \<and> lockedElement (snd (unlockElement_single w)) = None
   \<and> \<not> elementLocked (snd (unlockElement_single w))
   \<and> selectedElement (snd (unlockElement_single w)) = None
   \<and> (\<forall>l. lockedElement w = Some l \<longrightarrow>
        \<not> classList_contains (snd (unlockElement_single w)) l locked)
   \<and> (lockedElement w0 = None \<and> \<not> elementLocked w0 \<and> selectedElement w0 = None \<longrightarrow>
        unlockElement_single w0 = (True, w0)
        \<and> (secondaryActualElement w0 = [] \<longrightarrow> unlockElement_dual w0 = (True, w0)))"
proof -
  have "\<forall>l. lockedElement w = Some l \<longrightarrow>
        \<not> classList_contains (snd (unlockElement_single w)) l locked"
    by (simp add: unlockElement_single_classes)
  moreover have "lockedElement w0 = None \<and> \<not> elementLocked w0 \<and> selectedElement w0 = None \<longrightarrow>
        unlockElement_single w0 = (True, w0)
        \<and> (secondaryActualElement w0 = [] \<longrightarrow> unlockElement_dual w0 = (True, w0))"
    by (simp add: unlockElement_single_nothing unlockElement_dual_nothing)
  moreover have "length (secondaryElements w) = length (secondaryActualElement w) \<longrightarrow>
        secondaryElements (snd (unlockElement_dual w)) = []"
    by (simp add: unlockElement_dual_collections)
  moreover have "reachable_dual d w \<longrightarrow> secondaryElements (snd (unlockElement_dual w)) = []"
    using reachable_dual_aligned [of d w]
    by (simp add: index_aligned_def unlockElement_dual_collections)
  ultimately show ?thesis
    using unlockElement_dual_idem [of w] unlockElement_single_idem [of w]
      unlockElement_dual_true [of w] unlockElement_single_true [of w]
      unlockElement_dual_after [of w] unlockElement_single_after [of w]
      unlockElement_dual_classes [of w]
    by (intro conjI) simp_all
qed

text \<open>
  On the page: with the \<open>div\<close> as primary and the first \<open>li\<close> as secondary selection,
  \<open>unlockElement\<close> strips both classes and empties the arrays; in the session where
  nothing is locked it changes nothing.
\<close>

theorem unlockElement_idempotent_witness:
  "reachable_dual page (after_dual_click (after_dual_click session_dual 9) 6)
   \<and> lockedElement (after_dual_click (after_dual_click session_dual 9) 6) = Some 9
   \<and> secondaryActualElement (after_dual_click (after_dual_click session_dual 9) 6) = [6]
   \<and> length (secondaryElements (after_dual_click (after_dual_click session_dual 9) 6))
      = length (secondaryActualElement (after_dual_click (after_dual_click session_dual 9) 6))
   \<and> secondaryElements
        (snd (unlockElement_dual (after_dual_click (after_dual_click session_dual 9) 6))) = []
   \<and> \<not> classList_contains
        (snd (unlockElement_dual (after_dual_click (after_dual_click session_dual 9) 6)))
        9 primary
   \<and> \<not> classList_contains
        (snd (unlockElement_dual (after_dual_click (after_dual_click session_dual 9) 6)))
        6 secondary
   \<and> lockedElement session_dual = None \<and> \<not> elementLocked session_dual
   \<and> selectedElement session_dual = None \<and> secondaryActualElement session_dual = []
   \<and> unlockElement_dual session_dual = (True, session_dual)"
  using unlockElement_idempotent
      [of "after_dual_click (after_dual_click session_dual 9) 6" page session_dual]
    reachable_after_secondary
  by (simp add: after_secondary_facts session_dual_facts)

text \<open>
  C5: \<open>setAnnotationMode(x)\<close> sets the mode flag to the truth value of \<open>x\<close> and the
  cursor of the body to \<open>crosshair\<close> when that is true and to the empty string
  otherwise; when it is false, afterwards the lock flag is false, the locked element
  reference and the stored selection are cleared and (dual-role variant) both secondary
  arrays are empty, whatever the window was.
\<close>

theorem setAnnotationMode_effect:
  "annotationMode (setAnnotationMode_dual w x) = truthy x
   \<and> cursor (setAnnotationMode_dual w x) = (if truthy x then ''crosshair'' else [])
   \<and> annotationMode (setAnnotationMode_single w x) = truthy x
   \<and> cursor (setAnnotationMode_single w x) = (if truthy x then ''crosshair'' else [])
   \<and> (\<not> truthy x \<longrightarrow>
        \<not> elementLocked (setAnnotationMode_dual w x)
        \<and> lockedElement (setAnnotationMode_dual w x) = None
        \<and> selectedElement (setAnnotationMode_dual w x) = None
        \<and> secondaryElements (setAnnotationMode_dual w x) = []
        \<and> secondaryActualElement (setAnnotationMode_dual w x) = []
        \<and> \<not> elementLocked (setAnnotationMode_single w x)
        \<and> lockedElement (setAnnotationMode_single w x) = None
        \<and> selectedElement (setAnnotationMode_single w x) = None)"
proof (cases "truthy x")
  case True
  then show ?thesis
    by (simp add: setAnnotationMode_dual_on setAnnotationMode_single_on)
next
  case False
  then show ?thesis
    by (simp add: setAnnotationMode_dual_off setAnnotationMode_single_off)
qed

text \<open>
  On the page: with a primary and a secondary selection, \<open>setAnnotationMode(0)\<close> leaves
  the mode off, the default cursor, nothing locked and both arrays empty.
\<close>

theorem setAnnotationMode_effect_witness:
  "\<not> truthy (JNumber 0)
   \<and> elementLocked (after_dual_click (after_dual_click session_dual 9) 6)
   \<and> secondaryActualElement (after_dual_click (after_dual_click session_dual 9) 6) = [6]
   \<and> \<not> annotationMode
        (setAnnotationMode_dual (after_dual_click (after_dual_click session_dual 9) 6) (JNumber 0))
   \<and> cursor
        (setAnnotationMode_dual (after_dual_click (after_dual_click session_dual 9) 6) (JNumber 0))
      = []
   \<and> \<not> elementLocked
        (setAnnotationMode_dual (after_dual_click (after_dual_click session_dual 9) 6) (JNumber 0))
   \<and> secondaryElements
        (setAnnotationMode_dual (after_dual_click (after_dual_click session_dual 9) 6) (JNumber 0))
      = []
   \<and> secondaryActualElement
        (setAnnotationMode_dual (after_dual_click (after_dual_click session_dual 9) 6) (JNumber 0))
      = []"
  using setAnnotationMode_effect
      [of "after_dual_click (after_dual_click session_dual 9) 6" "JNumber 0"]
  by (simp add: after_secondary_facts)

text \<open>
  C10: \<open>setAnnotationMode\<close> with a truthy argument changes the mode flag and the cursor
  and nothing else: the lock flag, the locked element and its classes, the stored
  selection, both secondary arrays and the highlighted element stay as they were.
\<close>

theorem setAnnotationMode_enable_frame:
  "truthy x \<longrightarrow>
     setAnnotationMode_dual w x = w\<lparr>annotationMode := True, cursor := ''crosshair''\<rparr>
     \<and> setAnnotationMode_single w x = w\<lparr>annotationMode := True, cursor := ''crosshair''\<rparr>
     \<and> elementLocked (setAnnotationMode_dual w x) = elementLocked w
     \<and> lockedElement (setAnnotationMode_dual w x) = lockedElement w
     \<and> classList (setAnnotationMode_dual w x) = classList w
     \<and> selectedElement (setAnnotationMode_dual w x) = selectedElement w
     \<and> secondaryElements (setAnnotationMode_dual w x) = secondaryElements w
     \<and> secondaryActualElement (setAnnotationMode_dual w x) = secondaryActualElement w
     \<and> currentHighlightedElement (setAnnotationMode_dual w x) = currentHighlightedElement w
     \<and> elementLocked (setAnnotationMode_single w x) = elementLocked w
     \<and> lockedElement (setAnnotationMode_single w x) = lockedElement w
     \<and> classList (setAnnotationMode_single w x) = classList w
     \<and> selectedElement (setAnnotationMode_single w x) = selectedElement w
     \<and> currentHighlightedElement (setAnnotationMode_single w x) = currentHighlightedElement w"
  by (simp add: setAnnotationMode_dual_on setAnnotationMode_single_on)

text \<open>
  On the page: switching the mode on again with a primary and a secondary selection
  keeps both.
\<close>

theorem setAnnotationMode_enable_frame_witness:
  "truthy (JString ''yes'')
   \<and> elementLocked
        (setAnnotationMode_dual (after_dual_click (after_dual_click session_dual 9) 6)
           (JString ''yes''))
   \<and> lockedElement
        (setAnnotationMode_dual (after_dual_click (after_dual_click session_dual 9) 6)
           (JString ''yes'')) = Some 9
   \<and> secondaryActualElement
        (setAnnotationMode_dual (after_dual_click (after_dual_click session_dual 9) 6)
           (JString ''yes'')) = [6]
   \<and> classList
        (setAnnotationMode_dual (after_dual_click (after_dual_click session_dual 9) 6)
           (JString ''yes'')) 9 = [primary]"
  using setAnnotationMode_enable_frame
      [of "JString ''yes''" "after_dual_click (after_dual_click session_dual 9) 6"]
  by (simp add: after_secondary_facts)

section \<open>A click on an element without parent node\<close>

text \<open>
  C7: for every element attached under the document \<open>getXPath\<close> returns a string, as
  the specification says (\<open>getXPath_attached\<close> above). For an element without identifier
  and without parent node the script does not reach the \<open>return null\<close> it keeps for
  elements that are not valid: reading \<open>childNodes\<close> of the \<open>null\<close> parent throws a
  \<open>TypeError\<close> first, and the exception leaves the click listener of either variant
  after the lock flag has been set and before a selection is stored. Here the element
  is the \<open>div\<close> 10 of the page, which has no parent node: the target of a click whose
  element a listener attached to the window before the script's has taken out of the
  document.
\<close>

theorem getXPath_detached_throws:
  "nodeType page 10 = 1 \<and> elem_id page 10 = Some [] \<and> parentNode page 10 = None
   \<and> getXPath page 10 = Some TypeError
   \<and> annotationMode session_dual \<and> \<not> elementLocked session_dual
   \<and> map_option fst (annotationClickListener_dual page session_dual (event_at 10)) = Some Thrown
   \<and> elementLocked (after_dual_click session_dual 10)
   \<and> selectedElement (after_dual_click session_dual 10) = None
   \<and> lockedElement (after_dual_click session_dual 10) = None
   \<and> annotationMode session_single \<and> \<not> elementLocked session_single
   \<and> map_option fst (annotationClickListener_single page session_single (event_at 10))
       = Some Thrown
   \<and> elementLocked (after_single_click session_single 10)
   \<and> selectedElement (after_single_click session_single 10) = None"
proof -
  have p: "nodeType page 10 = 1" "elem_id page 10 = Some []" "parentNode page 10 = None"
    by (simp_all add: page_def)
  have x: "getXPath page 10 = Some TypeError"
    by (rule getXPath_detached) (simp_all add: page_def)
  have d: "annotationClickListener_dual page session_dual (event_at 10)
      = Some (Thrown, classList_add (classList_remove (session_dual\<lparr>elementLocked := True\<rparr>)
                 10 highlight) 10 primary, cancelled (event_at 10))"
    by (simp add: annotationClickListener_dual_def Let_def session_dual_facts event_at_def p x
        cancelled_def)
  have s: "annotationClickListener_single page session_single (event_at 10)
      = Some (Thrown, classList_add (classList_remove (session_single\<lparr>elementLocked := True\<rparr>)
                 10 highlight) 10 locked, cancelled (event_at 10))"
    by (simp add: annotationClickListener_single_def Let_def session_single_facts event_at_def
        p x cancelled_def)
  show ?thesis
    by (simp add: p x d s after_dual_click_def after_single_click_def session_dual_facts
        session_single_facts classList_add_eq classList_remove_def)
qed

section \<open>Input suppression\<close>

text \<open>
  What the two calls do to an event: the stop flag is set; the canceled flag is set when
  the event is cancelable, and is left as it was otherwise.
\<close>

lemma cancelled_flags:
  "stopped (cancelled ev)"
  "prevented (cancelled ev) \<longleftrightarrow> cancelable ev \<or> prevented ev"
  "target (cancelled ev) = target ev"
  "cancelable (cancelled ev) = cancelable ev"
  by (simp_all add: cancelled_def preventDefault_def stopImmediatePropagation_def)

text \<open>With the mode on, the three listeners make the two calls on the events they name.\<close>

lemma annotationKeydownListener_active:
  assumes "annotationMode w"
    and "tagName d (target ev) = ''INPUT'' \<or> tagName d (target ev) = ''TEXTAREA''
         \<or> isContentEditable d (target ev)"
  shows "annotationKeydownListener_run d w ev = cancelled ev"
  using assms by (auto simp add: annotationKeydownListener_run_def cancelled_def)

lemma annotationKeydownListener_other:
  assumes "tagName d (target ev) \<noteq> ''INPUT''" and "tagName d (target ev) \<noteq> ''TEXTAREA''"
    and "\<not> isContentEditable d (target ev)"
  shows "annotationKeydownListener_run d w ev = ev"
  using assms by (simp add: annotationKeydownListener_run_def)

lemma annotationSelectListener_active:
  assumes "annotationMode w" and "tagName d (target ev) = ''SELECT''"
  shows "annotationSelectListener_run d w ev = cancelled ev"
  using assms by (simp add: annotationSelectListener_run_def cancelled_def)

lemma annotationChangeListener_active:
  assumes "annotationMode w"
  shows "annotationChangeListener_run w ev = cancelled ev"
  using assms by (simp add: annotationChangeListener_run_def cancelled_def)

lemma input_listeners_inactive:
  assumes "\<not> annotationMode w"
  shows "annotationKeydownListener_run d w ev = ev"
    and "annotationSelectListener_run d w ev = ev"
    and "annotationChangeListener_run w ev = ev"
  using assms
  by (simp_all add: annotationKeydownListener_run_def annotationSelectListener_run_def
      annotationChangeListener_run_def)

text \<open>
  In the dispatch: a listener that makes the two calls ends it, so that no listener
  attached after it is invoked and the state of the page stays as the listeners attached
  before it have left it; the default action is withheld exactly when the event ends
  with its canceled flag set, which for an event that came in without it needs the
  event to be cancelable. A listener that returns the event as it is passes it on.
\<close>

lemma invoke_listeners_cancelling:
  assumes "f ev = cancelled ev"
  shows "invoke_listeners (as_listener f # later) s ev = (s, cancelled ev)"
  using assms by (simp add: as_listener_def cancelled_flags)

lemma invoke_listeners_passing:
  assumes "f ev = ev" and "\<not> stopped ev"
  shows "invoke_listeners (as_listener f # later) s ev = invoke_listeners later s ev"
  using assms by (simp add: as_listener_def)

lemma invoke_listeners_earlier:
  assumes "earlier s ev = (s', ev')" and "\<not> stopped ev'" and "f ev' = cancelled ev'"
  shows "invoke_listeners (earlier # as_listener f # later) s ev = (s', cancelled ev')"
  using assms by (simp add: as_listener_def cancelled_flags)

lemma default_action_cancelled:
  "default_action_runs (cancelled ev) \<longleftrightarrow> \<not> cancelable ev \<and> \<not> prevented ev"
  by (simp add: default_action_runs_def cancelled_flags)

text \<open>
  On the page, with the mode on: the keydown on the \<open>input\<close> and the mousedown on the
  \<open>select\<close>, both cancelable, end the dispatch with the canceled flag set, whatever
  listeners follow.
\<close>

lemma input_suppressed_on_page:
  "invoke_listeners (as_listener (annotationKeydownListener_run page session_dual) # later) s
     (event_at 11) = (s, cancelled (event_at 11))"
  "invoke_listeners (as_listener (annotationSelectListener_run page session_dual) # later) s
     (event_at 12) = (s, cancelled (event_at 12))"
  "\<not> default_action_runs (cancelled (event_at 11))"
  "\<not> default_action_runs (cancelled (event_at 12))"
proof -
  have t: "tagName page (target (event_at 11)) = ''INPUT''"
    "tagName page (target (event_at 12)) = ''SELECT''"
    by (simp_all add: event_at_def page_def)
  show "invoke_listeners (as_listener (annotationKeydownListener_run page session_dual) # later)
      s (event_at 11) = (s, cancelled (event_at 11))"
    by (rule invoke_listeners_cancelling, rule annotationKeydownListener_active)
      (simp_all add: session_dual_facts t)
  show "invoke_listeners (as_listener (annotationSelectListener_run page session_dual) # later)
      s (event_at 12) = (s, cancelled (event_at 12))"
    by (rule invoke_listeners_cancelling, rule annotationSelectListener_active)
      (simp_all add: session_dual_facts t)
  show "\<not> default_action_runs (cancelled (event_at 11))"
    "\<not> default_action_runs (cancelled (event_at 12))"
    by (simp_all add: default_action_cancelled event_at_def)
qed

text \<open>
  C9: the keydown listener and the mousedown listener cancel the events they test for,
  and with the mode off the three listeners leave every event alone (the lemmas above).
  The change listener, written to prevent change events on form elements, makes the two
  calls as well, but a change event is not cancelable: \<open>preventDefault\<close> does nothing to
  it, and the event leaves the dispatch with its canceled flag clear. Here the mode is
  on and the event is the change event of the \<open>select\<close> 12 of the page, whose keydown
  the keydown listener has let pass: the listeners attached after the script's are not
  invoked, and nothing is cancelled.
\<close>

theorem change_event_not_cancelled:
  "annotationMode session_dual \<and> tagName page 12 = ''SELECT''
   \<and> annotationKeydownListener_run page session_dual (event_at 12) = event_at 12
   \<and> \<not> cancelable (change_at 12)
   \<and> annotationChangeListener_run session_dual (change_at 12) = cancelled (change_at 12)
   \<and> stopped (annotationChangeListener_run session_dual (change_at 12))
   \<and> \<not> prevented (annotationChangeListener_run session_dual (change_at 12))
   \<and> default_action_runs
        (snd (invoke_listeners [as_listener (annotationChangeListener_run session_dual)] ()
           (change_at 12)))"
proof -
  have m: "annotationMode session_dual"
    by (simp add: session_dual_facts)
  have t: "tagName page 12 = ''SELECT''" "\<not> isContentEditable page 12"
    by (simp_all add: page_def)
  have k: "annotationKeydownListener_run page session_dual (event_at 12) = event_at 12"
    by (rule annotationKeydownListener_other) (simp_all add: event_at_def t)
  have c: "annotationChangeListener_run session_dual (change_at 12) = cancelled (change_at 12)"
    using m by (rule annotationChangeListener_active)
  have f: "\<not> cancelable (change_at 12)" "\<not> prevented (change_at 12)"
    by (simp_all add: change_at_def)
  have i: "invoke_listeners [as_listener (annotationChangeListener_run session_dual)] ()
      (change_at 12) = ((), cancelled (change_at 12))"
    using c by (rule invoke_listeners_cancelling)
  have r: "default_action_runs
      (snd (invoke_listeners [as_listener (annotationChangeListener_run session_dual)] ()
         (change_at 12)))"
    unfolding i by (simp add: default_action_cancelled f)
  have n: "stopped (cancelled (change_at 12))" "\<not> prevented (cancelled (change_at 12))"
    by (simp_all add: cancelled_flags f)
  from m t(1) k f(1) c n r show ?thesis
    unfolding c by (intro conjI)
qed

end
